theory Spec2Isabelle
  imports Complex_Main
begin

section \<open>JavaScript values and the primitive operations the script uses\<close>

text \<open>
  The script works on values parsed from JSON response bodies. A Number is a finite
  value, an infinity or NaN; every double is one of these (negative zero is not told
  apart from zero: the script never divides and only prints and adds). An object is the
  list of its own properties in insertion order; the first entry for a key is the one a
  lookup finds.
\<close>

datatype jsnum = Finite rat | PosInf | NegInf | NaN

text \<open>The Number with an integer value: a counter, a \<open>length\<close>, a \<open>size\<close>.\<close>

definition js_number :: "int \<Rightarrow> jsnum" where
  "js_number i = Finite (of_int i)"

datatype jsval =
    JUndefined
  | JNull
  | JBool bool
  | JNum jsnum
  | JStr string
  | JArr "jsval list"
  | JObj "(string \<times> jsval) list"

text \<open>
  What the script can throw: a \<open>TypeError\<close> of the runtime (the \<open>in\<close> operator on a
  value that is not an object, a property read on \<open>null\<close> or \<open>undefined\<close>), a rejection
  of the HTTP client (network failure or a status outside 2xx), \<open>new Error(msg)\<close> with a
  fixed message, and \<open>new Error(prefix + status + ": " + statusText)\<close>.
\<close>

datatype error =
    TypeError
  | AxiosError string
  | Err string
  | ErrStatus string nat string

definition seq :: "error + 'a \<Rightarrow> ('a \<Rightarrow> error + 'b) \<Rightarrow> error + 'b" where
  "seq m f = (case m of Inl e \<Rightarrow> Inl e | Inr v \<Rightarrow> f v)"

text \<open>\<open>a && b\<close> in a condition: \<open>b\<close> is evaluated only when \<open>a\<close> is true.\<close>

definition js_and :: "error + bool \<Rightarrow> error + bool \<Rightarrow> error + bool" where
  "js_and a b = (case a of Inl e \<Rightarrow> Inl e | Inr x \<Rightarrow> if x then b else Inr False)"

fun js_truthy :: "jsval \<Rightarrow> bool" where
  "js_truthy JUndefined = False"
| "js_truthy JNull = False"
| "js_truthy (JBool b) = b"
| "js_truthy (JNum n) = (n \<noteq> Finite 0 \<and> n \<noteq> NaN)"
| "js_truthy (JStr s) = (s \<noteq> [])"
| "js_truthy (JArr xs) = True"
| "js_truthy (JObj kvs) = True"

fun js_typeof :: "jsval \<Rightarrow> string" where
  "js_typeof JUndefined = ''undefined''"
| "js_typeof JNull = ''object''"
| "js_typeof (JBool b) = ''boolean''"
| "js_typeof (JNum n) = ''number''"
| "js_typeof (JStr s) = ''string''"
| "js_typeof (JArr xs) = ''object''"
| "js_typeof (JObj kvs) = ''object''"

fun js_isArray :: "jsval \<Rightarrow> bool" where
  "js_isArray (JArr xs) = True"
| "js_isArray v = False"

text \<open>
  \<open>k in v\<close> and \<open>v.k\<close>, for the property names the script uses (none of them is an
  array index, \<open>length\<close>, or a property inherited from a prototype, so on an array and
  on a primitive the answer is "absent").
\<close>

fun js_in :: "string \<Rightarrow> jsval \<Rightarrow> error + bool" where
  "js_in k (JObj kvs) = Inr (map_of kvs k \<noteq> None)"
| "js_in k (JArr xs) = Inr False"
| "js_in k v = Inl TypeError"

fun js_get :: "jsval \<Rightarrow> string \<Rightarrow> error + jsval" where
  "js_get (JObj kvs) k = Inr (case map_of kvs k of None \<Rightarrow> JUndefined | Some v \<Rightarrow> v)"
| "js_get JUndefined k = Inl TypeError"
| "js_get JNull k = Inl TypeError"
| "js_get v k = Inr JUndefined"

text \<open>The elements a \<open>for ... of\<close> loop visits; the script iterates arrays only.\<close>

fun js_elements :: "jsval \<Rightarrow> error + jsval list" where
  "js_elements (JArr xs) = Inr xs"
| "js_elements v = Inl TypeError"

text \<open>A \<open>for (x of xs) body\<close> loop over a state, stopping at the first exception.\<close>

fun for_of :: "'a list \<Rightarrow> ('a \<Rightarrow> 's \<Rightarrow> error + 's) \<Rightarrow> 's \<Rightarrow> error + 's" where
  "for_of [] body s = Inr s"
| "for_of (x # xs) body s = seq (body x s) (for_of xs body)"

section \<open>autoRetry\<close>

text \<open>
  \<open>func\<close> is an effectful thunk: it takes the state of the world, and returns either the
  value it resolved with or the exception it threw, and the world after the attempt.
  The two \<open>console.error\<close> lines of the handler are diagnostics and are left out.
\<close>

definition autoRetry :: "('w \<Rightarrow> (error + 'a) \<times> 'w) \<Rightarrow> 'w \<Rightarrow> (error + 'a) \<times> 'w" where
  "autoRetry func w =
     (case func w of
        (Inr ret, w') \<Rightarrow> (Inr ret, w')
      | (Inl e, w') \<Rightarrow> func w')"


section \<open>The HTTP boundary\<close>

record response =
  status :: nat
  statusText :: string
  data :: jsval

text \<open>
  A signed credential is identified by what was signed and with which secret
  (\<open>makeCustomerToken\<close>, \<open>makeServerToken\<close>); expiry is real time and is left out.
\<close>

datatype token = CustomerToken jsval jsval | ServerToken jsval jsval

text \<open>
  \<open>jwt.sign(payload, secret, options)\<close> throws when the secret is empty
  (\<open>secretOrPrivateKey must have a value\<close>); the secrets the script passes are strings.
\<close>

definition makeCustomerToken :: "jsval \<Rightarrow> jsval \<Rightarrow> error + token" where
  "makeCustomerToken customer_id customer_secret =
     (if js_truthy customer_secret then Inr (CustomerToken customer_id customer_secret)
      else Inl (Err ''secretOrPrivateKey must have a value''))"

definition makeServerToken :: "jsval \<Rightarrow> jsval \<Rightarrow> error + token" where
  "makeServerToken appID appSecret =
     (if js_truthy appSecret then Inr (ServerToken appID appSecret)
      else Inl (Err ''secretOrPrivateKey must have a value''))"

text \<open>
  A request is the URL the script builds, kept in its parts: the path under
  \<open>https://api.cord.com/v1/\<close>, the \<open>limit\<close> parameter when there is one, the \<open>token\<close>
  parameter when there is one, and the bearer credential of the header.
\<close>

record request =
  rq_path :: string
  rq_limit :: "nat option"
  rq_token :: "jsval option"
  rq_auth :: token

text \<open>
  The server is any function from the requests one fetch has already made and the
  request at hand to what \<open>axios.get\<close> does with it: reject, or resolve with a response.
  The world of one fetch is the list of its exchanges so far, oldest first: each request
  with what came back. (The four fetches of one application run concurrently; each has
  its own endpoint, and the model lets the answers to an endpoint depend on the requests
  to that endpoint only.)
\<close>

type_synonym server = "request list \<Rightarrow> request \<Rightarrow> error + response"

type_synonym exchange = "request \<times> (error + response)"

definition axios_get :: "server \<Rightarrow> request \<Rightarrow> exchange list \<Rightarrow> (error + response) \<times> exchange list" where
  "axios_get srv rq hist = (srv (map fst hist) rq, hist @ [(rq, srv (map fst hist) rq)])"

section \<open>The paginated fetches\<close>

text \<open>
  \<open>getUsers\<close>, \<open>getThreads\<close> and \<open>getMessages\<close> are the same text up to the path, the page
  size, the name of the item array and the three messages; the model has one loop and
  these six constants per function.
\<close>

record resource =
  res_path :: string
  res_limit :: nat
  res_field :: string
  res_no_items :: string
  res_bad_pagination :: string
  res_bad_status :: string

definition users_resource :: resource where
  "users_resource = \<lparr> res_path = ''users'', res_limit = 25000, res_field = ''users'',
     res_no_items = ''Request for users was malformed -- no users'',
     res_bad_pagination = ''Malformed pagination data on response for listing users'',
     res_bad_status = ''Failed to fetch users: '' \<rparr>"

definition threads_resource :: resource where
  "threads_resource = \<lparr> res_path = ''threads'', res_limit = 25000, res_field = ''threads'',
     res_no_items = ''Request for threads had no threads'',
     res_bad_pagination = ''Malformed pagination data on response for listing threads'',
     res_bad_status = ''Failed to fetch threads: '' \<rparr>"

definition messages_resource :: resource where
  "messages_resource = \<lparr> res_path = ''messages'', res_limit = 1500, res_field = ''messages'',
     res_no_items = ''Request for messages had no messages'',
     res_bad_pagination = ''Malformed pagination data on response for listing messages'',
     res_bad_status = ''Failed to fetch threads: '' \<rparr>"

definition page_request :: "resource \<Rightarrow> token \<Rightarrow> jsval \<Rightarrow> request" where
  "page_request r tok paginationToken =
     \<lparr> rq_path = res_path r, rq_limit = Some (res_limit r),
       rq_token = (if paginationToken \<noteq> JNull then Some paginationToken else None),
       rq_auth = tok \<rparr>"

text \<open>The test on \<open>data.pagination\<close>, conjunct by conjunct.\<close>

definition pagination_ok :: "jsval \<Rightarrow> error + bool" where
  "pagination_ok d =
     js_and (js_in ''pagination'' d)
    (js_and (seq (js_get d ''pagination'') (\<lambda>p. Inr (js_typeof p = ''object'')))
    (js_and (seq (js_get d ''pagination'') (\<lambda>p. Inr (js_truthy p)))
    (js_and (seq (js_get d ''pagination'') (js_in ''token''))
            (seq (js_get d ''pagination'') (js_in ''total'')))))"

text \<open>
  The body of the \<open>do ... while\<close> after the response has arrived: from the items and the
  cursor held so far to the items and the cursor held afterwards, or the exception.
  There is no \<open>else\<close> to \<open>if (data && typeof data === "object")\<close>: such a body changes
  nothing.
\<close>

definition page_body :: "resource \<Rightarrow> response \<Rightarrow> jsval list \<Rightarrow> jsval \<Rightarrow> error + (jsval list \<times> jsval)" where
  "page_body r resp items paginationToken =
     (if status resp = 200 then
        (if js_truthy (data resp) \<and> js_typeof (data resp) = ''object'' then
           seq (js_and (js_in (res_field r) (data resp))
                       (seq (js_get (data resp) (res_field r)) (\<lambda>v. Inr (js_isArray v))))
             (\<lambda>has_items.
                if has_items then
                  seq (seq (js_get (data resp) (res_field r)) js_elements) (\<lambda>page.
                  seq (pagination_ok (data resp)) (\<lambda>ok.
                    if ok then
                      seq (seq (js_get (data resp) ''pagination'') (\<lambda>p. js_get p ''token''))
                        (\<lambda>t. Inr (items @ page, t))
                    else Inl (Err (res_bad_pagination r))))
                else Inl (Err (res_no_items r)))
         else Inr (items, paginationToken))
      else Inl (ErrStatus (res_bad_status r) (status resp) (statusText resp)))"

text \<open>
  The loop. It may never return (a server can hand out cursors for ever): \<open>None\<close> is a run
  that does not end, \<open>Some (Inl e, hist)\<close> a run that threw \<open>e\<close>, \<open>Some (Inr items, hist)\<close> a
  run that returned \<open>items\<close>; \<open>hist\<close> holds every exchange made.
\<close>

partial_function (option) fetch_pages ::
  "server \<Rightarrow> resource \<Rightarrow> token \<Rightarrow> jsval list \<Rightarrow> jsval \<Rightarrow> exchange list
     \<Rightarrow> ((error + jsval list) \<times> exchange list) option" where
  "fetch_pages srv r tok items paginationToken hist =
     (case autoRetry (axios_get srv (page_request r tok paginationToken)) hist of
        (Inl e, hist') \<Rightarrow> Some (Inl e, hist')
      | (Inr resp, hist') \<Rightarrow>
          (case page_body r resp items paginationToken of
             Inl e \<Rightarrow> Some (Inl e, hist')
           | Inr (items', paginationToken') \<Rightarrow>
               if paginationToken' \<noteq> JNull
               then fetch_pages srv r tok items' paginationToken' hist'
               else Some (Inr items', hist')))"

definition getUsers :: "server \<Rightarrow> token \<Rightarrow> ((error + jsval list) \<times> exchange list) option" where
  "getUsers srv tok = fetch_pages srv users_resource tok [] JNull []"

definition getThreads :: "server \<Rightarrow> token \<Rightarrow> ((error + jsval list) \<times> exchange list) option" where
  "getThreads srv tok = fetch_pages srv threads_resource tok [] JNull []"

definition getMessages :: "server \<Rightarrow> token \<Rightarrow> ((error + jsval list) \<times> exchange list) option" where
  "getMessages srv tok = fetch_pages srv messages_resource tok [] JNull []"

definition getGroups :: "server \<Rightarrow> token \<Rightarrow> (error + jsval list) \<times> exchange list" where
  "getGroups srv tok =
     (case autoRetry (axios_get srv
             \<lparr> rq_path = ''groups'', rq_limit = None, rq_token = None, rq_auth = tok \<rparr>) [] of
        (Inl e, hist') \<Rightarrow> (Inl e, hist')
      | (Inr resp, hist') \<Rightarrow>
          (if status resp = 200 then
             (if js_truthy (data resp) \<and> js_isArray (data resp)
              then (js_elements (data resp), hist')
              else (Inl (Err ''Response for groups was malformed -- no groups''), hist'))
           else (Inl (ErrStatus ''Failed to fetch groups: '' (status resp) (statusText resp)), hist')))"

section \<open>countMentionsInMessageContent\<close>

text \<open>Congruence rules: the recursive call below sits inside \<open>seq\<close> and \<open>for_of\<close>.\<close>

lemma seq_cong [fundef_cong]:
  "m = m' \<Longrightarrow> (\<And>v. m' = Inr v \<Longrightarrow> f v = g v) \<Longrightarrow> seq m f = seq m' g"
  by (auto simp: seq_def split: sum.splits)

lemma for_of_cong [fundef_cong]:
  "xs = ys \<Longrightarrow> s = s' \<Longrightarrow> (\<And>x c. x \<in> set ys \<Longrightarrow> f x c = g x c)
     \<Longrightarrow> for_of xs f s = for_of ys g s'"
proof (induction xs arbitrary: ys s s')
  case Nil
  then show ?case by simp
next
  case (Cons x xs)
  then show ?case by (auto intro!: seq_cong)
qed

lemma size_map_of:
  "map_of kvs k = Some v \<Longrightarrow> size v < Suc (size_list (size_prod (\<lambda>_. 0) size) kvs)"
  by (induction kvs) (auto split: if_splits)

lemma size_js_get_elements:
  "js_get v k = Inr c \<Longrightarrow> js_elements c = Inr xs \<Longrightarrow> size_list size xs < size v"
  by (cases v; cases c) (auto split: option.splits dest: size_map_of)

function countMentionsInMessageContent :: "jsval list \<Rightarrow> error + nat" where
  "countMentionsInMessageContent arr =
     for_of arr
       (\<lambda>thing count.
          if js_truthy thing \<and> js_typeof thing = ''object'' then
            seq (js_and (js_in ''type'' thing)
                        (seq (js_get thing ''type'') (\<lambda>t. Inr (t = JStr ''mention''))))
              (\<lambda>is_mention.
            seq (js_and (js_in ''children'' thing)
                        (seq (js_get thing ''children'') (\<lambda>c. Inr (js_isArray c))))
              (\<lambda>has_children.
                 if has_children then
                   seq (seq (js_get thing ''children'') js_elements) (\<lambda>children.
                   seq (countMentionsInMessageContent children) (\<lambda>n.
                     Inr ((if is_mention then count + 1 else count) + n)))
                 else Inr (if is_mention then count + 1 else count)))
          else Inr count)
       0"
  by pat_completeness auto
termination
proof (relation "measure (size_list size)")
  show "wf (measure (size_list size))" by simp
next
  fix arr :: "jsval list" and thing :: jsval and count :: nat
    and is_mention has_children :: bool and children :: "jsval list"
  assume mem: "thing \<in> set arr"
    and ch: "seq (js_get thing ''children'') js_elements = Inr children"
  from ch obtain c where "js_get thing ''children'' = Inr c" "js_elements c = Inr children"
    by (auto simp: seq_def split: sum.splits)
  then have "size_list size children < size thing"
    by (rule size_js_get_elements)
  moreover from mem have "size thing \<le> size_list size arr"
    by (rule size_list_estimation') simp
  ultimately show "(children, arr) \<in> measure (size_list size)"
    by simp
qed

declare countMentionsInMessageContent.simps [simp del]

section \<open>The aggregation in generateApplicationAnalytics\<close>

text \<open>
  A \<open>Set\<close> compares primitives by value and objects by reference. Parsed JSON shares no
  object, so every object or array that is added is a new member. The set is the list
  of its members in insertion order.
\<close>

fun js_primitive :: "jsval \<Rightarrow> bool" where
  "js_primitive (JArr xs) = False"
| "js_primitive (JObj kvs) = False"
| "js_primitive v = True"

definition set_add :: "jsval \<Rightarrow> jsval list \<Rightarrow> jsval list" where
  "set_add v members = (if js_primitive v \<and> v \<in> set members then members else members @ [v])"

text \<open>
  \<open>if (typeof x.k === "number") { acc += x.k; }\<close> The sum of two Numbers is the
  floating-point addition of the runtime, which the script uses and does not define: it
  is the parameter \<open>num_add\<close>.
\<close>

definition add_number :: "(jsnum \<Rightarrow> jsnum \<Rightarrow> jsnum) \<Rightarrow> jsval \<Rightarrow> string \<Rightarrow> jsnum \<Rightarrow> error + jsnum" where
  "add_number num_add x k acc =
     seq (js_get x k) (\<lambda>v. case v of JNum n \<Rightarrow> Inr (num_add acc n) | _ \<Rightarrow> Inr acc)"

text \<open>
  \<open>if (x.k && Array.isArray(x.k)) { acc += x.k.length; }\<close> This sum, like the counters
  that \<open>++\<close> steps, counts elements of arrays held in memory; it is an integer, exact in
  floating point far beyond any number of elements that can be held.
\<close>

definition add_length :: "jsval \<Rightarrow> string \<Rightarrow> int \<Rightarrow> error + int" where
  "add_length x k acc =
     seq (js_get x k) (\<lambda>v.
       if js_truthy v \<and> js_isArray v
       then seq (js_elements v) (\<lambda>xs. Inr (acc + int (length xs)))
       else Inr acc)"

record user_counts =
  activeUserCount :: int
  deletedUserCount :: int

definition user_step :: "jsval \<Rightarrow> user_counts \<Rightarrow> error + user_counts" where
  "user_step u c =
     (if js_truthy u \<and> js_typeof u = ''object'' then
        seq (js_get u ''status'') (\<lambda>s.
          if s = JStr ''active'' then Inr (c\<lparr>activeUserCount := activeUserCount c + 1\<rparr>)
          else seq (js_get u ''status'') (\<lambda>s'.
            if s' = JStr ''deleted'' then Inr (c\<lparr>deletedUserCount := deletedUserCount c + 1\<rparr>)
            else Inr c))
      else Inr c)"

record group_counts =
  activeGroupCount :: int
  deletedGroupCount :: int
  slackConnectedGroupCount :: int

definition group_step :: "jsval \<Rightarrow> group_counts \<Rightarrow> error + group_counts" where
  "group_step g c =
     (if js_truthy g \<and> js_typeof g = ''object'' then
        seq (seq (js_get g ''status'') (\<lambda>s.
               if s = JStr ''active'' then Inr (c\<lparr>activeGroupCount := activeGroupCount c + 1\<rparr>)
               else seq (js_get g ''status'') (\<lambda>s'.
                 if s' = JStr ''deleted'' then Inr (c\<lparr>deletedGroupCount := deletedGroupCount c + 1\<rparr>)
                 else Inr c)))
          (\<lambda>c. seq (js_get g ''connectToSlack'') (\<lambda>v.
             if js_truthy v then Inr (c\<lparr>slackConnectedGroupCount := slackConnectedGroupCount c + 1\<rparr>)
             else Inr c))
      else Inr c)"

record thread_counts =
  totalResolvedThreadCount :: int
  totalMessageCount :: jsnum
  totalDeletedMessageCount :: jsnum
  totalActionMessagesCount :: jsnum
  totalUserMessagesCount :: jsnum
  threadParticipants :: "jsval list"

definition participant_step :: "jsval \<Rightarrow> jsval list \<Rightarrow> error + jsval list" where
  "participant_step p members =
     seq (js_and (Inr (js_truthy p \<and> js_typeof p = ''object'')) (js_in ''userID'' p))
       (\<lambda>has_id.
          if has_id then seq (js_get p ''userID'') (\<lambda>u. Inr (set_add u members))
          else Inr members)"

definition thread_step ::
  "(jsnum \<Rightarrow> jsnum \<Rightarrow> jsnum) \<Rightarrow> jsval \<Rightarrow> thread_counts \<Rightarrow> error + thread_counts" where
  "thread_step num_add t c =
     (if js_truthy t \<and> js_typeof t = ''object'' then
        seq (js_get t ''resolved'') (\<lambda>r.
        seq (add_number num_add t ''total'' (totalMessageCount c)) (\<lambda>total.
        seq (add_number num_add t ''actionMessages'' (totalActionMessagesCount c)) (\<lambda>action.
        seq (add_number num_add t ''userMessages'' (totalUserMessagesCount c)) (\<lambda>user.
        seq (add_number num_add t ''deletedMessages'' (totalDeletedMessageCount c)) (\<lambda>deleted.
        seq (seq (js_get t ''participants'') (\<lambda>ps.
               if js_truthy ps \<and> js_isArray ps
               then seq (js_elements ps) (\<lambda>xs. for_of xs participant_step (threadParticipants c))
               else Inr (threadParticipants c))) (\<lambda>members.
          Inr \<lparr> totalResolvedThreadCount =
                  (if js_truthy r then totalResolvedThreadCount c + 1
                   else totalResolvedThreadCount c),
                totalMessageCount = total,
                totalDeletedMessageCount = deleted,
                totalActionMessagesCount = action,
                totalUserMessagesCount = user,
                threadParticipants = members \<rparr>))))))
      else Inr c)"

record message_counts =
  totalMentionMessagesCount :: int
  totalReactionsCount :: int
  totalAttachmentsCount :: int

definition message_step :: "jsval \<Rightarrow> message_counts \<Rightarrow> error + message_counts" where
  "message_step m c =
     (if js_truthy m \<and> js_typeof m = ''object'' then
        seq (add_length m ''reactions'' (totalReactionsCount c)) (\<lambda>reactions.
        seq (add_length m ''attachments'' (totalAttachmentsCount c)) (\<lambda>attachments.
        seq (seq (js_get m ''content'') (\<lambda>v.
               if js_truthy v \<and> js_isArray v
               then seq (seq (js_elements v) countMentionsInMessageContent)
                      (\<lambda>n. Inr (totalMentionMessagesCount c + int n))
               else Inr (totalMentionMessagesCount c))) (\<lambda>mentions.
          Inr \<lparr> totalMentionMessagesCount = mentions,
                totalReactionsCount = reactions,
                totalAttachmentsCount = attachments \<rparr>)))
      else Inr c)"

text \<open>
  The metrics object, as the list of its properties in the order the object literal
  writes them.
\<close>

type_synonym metrics = "(string \<times> jsnum) list"

text \<open>
  Lines 340 to 445 of \<open>generateApplicationAnalytics\<close>: from the four collections to the
  metrics object.
\<close>

definition aggregate ::
  "(jsnum \<Rightarrow> jsnum \<Rightarrow> jsnum) \<Rightarrow> jsval list \<Rightarrow> jsval list \<Rightarrow> jsval list \<Rightarrow> jsval list
     \<Rightarrow> error + metrics" where
  "aggregate num_add users groups threads messages =
     seq (for_of users user_step \<lparr> activeUserCount = 0, deletedUserCount = 0 \<rparr>) (\<lambda>uc.
     seq (for_of groups group_step
            \<lparr> activeGroupCount = 0, deletedGroupCount = 0, slackConnectedGroupCount = 0 \<rparr>) (\<lambda>gc.
     seq (for_of threads (thread_step num_add)
            \<lparr> totalResolvedThreadCount = 0, totalMessageCount = Finite 0,
              totalDeletedMessageCount = Finite 0, totalActionMessagesCount = Finite 0,
              totalUserMessagesCount = Finite 0, threadParticipants = [] \<rparr>) (\<lambda>tc.
     seq (for_of messages message_step
            \<lparr> totalMentionMessagesCount = 0, totalReactionsCount = 0,
              totalAttachmentsCount = 0 \<rparr>) (\<lambda>mc.
       Inr [(''Total User Count'', js_number (int (length users))),
            (''Active User Count'', js_number (activeUserCount uc)),
            (''Deleted User Count'', js_number (deletedUserCount uc)),
            (''Total Group Count'', js_number (int (length groups))),
            (''Active Group Count'', js_number (activeGroupCount gc)),
            (''Deleted Group Count'', js_number (deletedGroupCount gc)),
            (''Slack Connected Group Count'', js_number (slackConnectedGroupCount gc)),
            (''Total Thread Count'', js_number (int (length threads))),
            (''Total Resolved Thread Count'', js_number (totalResolvedThreadCount tc)),
            (''Total Message Count'', totalMessageCount tc),
            (''Total Deleted Message Count'', totalDeletedMessageCount tc),
            (''Total User Messages Count'', totalUserMessagesCount tc),
            (''Total Action Messages Count'', totalActionMessagesCount tc),
            (''Total Thread Participants Count'', js_number (int (length (threadParticipants tc)))),
            (''Total Messages'', js_number (int (length messages))),
            (''Total Mention Messages Count'', js_number (totalMentionMessagesCount mc)),
            (''Total Reactions Count'', js_number (totalReactionsCount mc)),
            (''Total Attachments Count'', js_number (totalAttachmentsCount mc))]))))"

section \<open>generateApplicationAnalytics\<close>

definition application_valid :: "jsval \<Rightarrow> error + bool" where
  "application_valid app =
     js_and (Inr (js_truthy app \<and> js_typeof app = ''object''))
    (js_and (js_in ''id'' app)
    (js_and (seq (js_get app ''id'') (\<lambda>v. Inr (js_typeof v = ''string'')))
    (js_and (js_in ''secret'' app)
    (js_and (seq (js_get app ''secret'') (\<lambda>v. Inr (js_typeof v = ''string'')))
    (js_and (js_in ''name'' app)
            (seq (js_get app ''name'') (\<lambda>v. Inr (js_typeof v = ''string''))))))))"

text \<open>
  \<open>Promise.all\<close> of the four fetches: it rejects as soon as one of them rejects (which one
  is first depends on timing; the model takes the first in the order of the array), it
  resolves when all have resolved, and otherwise it never settles.
\<close>

fun first_rejection :: "(error + 'a) option list \<Rightarrow> error option" where
  "first_rejection [] = None"
| "first_rejection (Some (Inl e) # ps) = Some e"
| "first_rejection (p # ps) = first_rejection ps"

definition promise_all4 ::
  "(error + 'a) option \<Rightarrow> (error + 'a) option \<Rightarrow> (error + 'a) option \<Rightarrow> (error + 'a) option
     \<Rightarrow> (error + ('a \<times> 'a \<times> 'a \<times> 'a)) option" where
  "promise_all4 a b c d =
     (case first_rejection [a, b, c, d] of
        Some e \<Rightarrow> Some (Inl e)
      | None \<Rightarrow>
          (case (a, b, c, d) of
             (Some (Inr u), Some (Inr g), Some (Inr t), Some (Inr m)) \<Rightarrow> Some (Inr (u, g, t, m))
           | _ \<Rightarrow> None))"

text \<open>
  The function returns a one-element array holding the metrics object, which the caller
  spreads into its row; the model returns the metrics object.
\<close>

definition generateApplicationAnalytics ::
  "(jsnum \<Rightarrow> jsnum \<Rightarrow> jsnum) \<Rightarrow> server \<Rightarrow> jsval \<Rightarrow> (error + metrics) option" where
  "generateApplicationAnalytics num_add srv app =
     (case application_valid app of
        Inl e \<Rightarrow> Some (Inl e)
      | Inr ok \<Rightarrow>
          if ok then
            (case (js_get app ''id'', js_get app ''secret'') of
               (Inr app_id, Inr app_secret) \<Rightarrow>
                 (case makeServerToken app_id app_secret of
                    Inl e \<Rightarrow> Some (Inl e)
                  | Inr serverToken \<Rightarrow>
                      (case promise_all4
                              (map_option fst (getUsers srv serverToken))
                              (Some (fst (getGroups srv serverToken)))
                              (map_option fst (getThreads srv serverToken))
                              (map_option fst (getMessages srv serverToken)) of
                         None \<Rightarrow> None
                       | Some (Inl e) \<Rightarrow> Some (Inl e)
                       | Some (Inr (users, groups, threads, messages)) \<Rightarrow>
                           Some (aggregate num_add users groups threads messages)))
             | _ \<Rightarrow> Some (Inl TypeError))
          else Some (Inl (Err ''Application is missing required fields: name, id, and secret'')))"

section \<open>Rendering values into the CSV text\<close>

fun join_strings :: "string \<Rightarrow> string list \<Rightarrow> string" where
  "join_strings sep [] = []"
| "join_strings sep [x] = x"
| "join_strings sep (x # y # ys) = x @ sep @ join_strings sep (y # ys)"

text \<open>
  \<open>Array.prototype.join\<close> writes \<open>null\<close> and \<open>undefined\<close> as the empty string and every
  other element as \<open>String(element)\<close>. The text of a Number is the conversion of the
  runtime, which the script uses and does not define: it is the parameter \<open>str\<close>.
\<close>

fun js_toString :: "(jsnum \<Rightarrow> string) \<Rightarrow> jsval \<Rightarrow> string" where
  "js_toString str JUndefined = ''undefined''"
| "js_toString str JNull = ''null''"
| "js_toString str (JBool b) = (if b then ''true'' else ''false'')"
| "js_toString str (JNum n) = str n"
| "js_toString str (JStr s) = s"
| "js_toString str (JArr xs) =
     join_strings '',''
       (map (\<lambda>v. if v = JUndefined \<or> v = JNull then [] else js_toString str v) xs)"
| "js_toString str (JObj kvs) = ''[object Object]''"

definition js_join :: "(jsnum \<Rightarrow> string) \<Rightarrow> string \<Rightarrow> jsval list \<Rightarrow> string" where
  "js_join str sep xs =
     join_strings sep
       (map (\<lambda>v. if v = JUndefined \<or> v = JNull then [] else js_toString str v) xs)"

section \<open>main and the top level of the script\<close>

text \<open>
  How the process ends: \<open>process.exit(n)\<close>, the end of \<open>main\<close>, or an exception nobody
  catches (thrown at the top level, or rejecting the promise of \<open>main\<close>), on which the
  runtime prints the exception and exits with code 1.
\<close>

datatype ending = Exited nat | Completed | Uncaught error

fun exit_code :: "ending \<Rightarrow> nat" where
  "exit_code (Exited n) = n"
| "exit_code Completed = 0"
| "exit_code (Uncaught e) = 1"

text \<open>
  The fixed lines that the top level, \<open>listApplications\<close> and \<open>main\<close> print. The progress
  lines of \<open>log\<close> and the dumps of caught exceptions are left out.
\<close>

datatype report =
    MissingOutputFile
  | FailedToListApplications
  | FailedToGenerateAnalytics jsval
  | MalformedApplicationObject
  | UnexpectedApplicationsResponse
  | FailedToWriteOutputFile
  | CsvFileWritten

record outcome =
  ending :: ending
  console :: "report list"
  written :: "(jsval \<times> string) option"

text \<open>
  What the script is given: the parsed \<open>.env\<close> file (\<open>undefined\<close> when there is none),
  the \<open>outputFile\<close> argument, the server, the file system, which either writes the
  content or throws, and the two operations of the runtime on Numbers, addition and
  conversion to text.
\<close>

record environment =
  dotenv_parsed :: jsval
  argv_outputFile :: jsval
  api :: server
  writeFileSync :: "jsval \<Rightarrow> string \<Rightarrow> error option"
  number_plus :: "jsnum \<Rightarrow> jsnum \<Rightarrow> jsnum"
  number_toString :: "jsnum \<Rightarrow> string"

definition stop :: "ending \<Rightarrow> report list \<Rightarrow> outcome" where
  "stop e lines = \<lparr> ending = e, console = lines, written = None \<rparr>"

definition listApplications :: "server \<Rightarrow> token \<Rightarrow> outcome + jsval" where
  "listApplications srv tok =
     (case fst (autoRetry (axios_get srv
             \<lparr> rq_path = ''applications'', rq_limit = None, rq_token = None, rq_auth = tok \<rparr>) []) of
        Inl e \<Rightarrow> Inl (stop (Exited 1) [FailedToListApplications])
      | Inr resp \<Rightarrow>
          if status resp = 200 then Inr (data resp)
          else Inl (stop (Exited 1) [FailedToListApplications]))"

text \<open>One row of \<open>applicationData\<close>: \<open>[application.id, application.name, metrics]\<close>.\<close>

type_synonym entry = "jsval \<times> jsval \<times> metrics"

text \<open>The loop of \<open>main\<close> over the applications.\<close>

fun collect ::
  "(jsnum \<Rightarrow> jsnum \<Rightarrow> jsnum) \<Rightarrow> server \<Rightarrow> jsval list \<Rightarrow> entry list
     \<Rightarrow> (outcome + entry list) option" where
  "collect num_add srv [] applicationData = Some (Inr applicationData)"
| "collect num_add srv (application # rest) applicationData =
     (if js_truthy application \<and> js_typeof application = ''object'' then
        (case (js_get application ''id'', js_get application ''name'') of
           (Inr app_id, Inr app_name) \<Rightarrow>
             if app_id = JStr ''923ecd44-198f-49a2-a4f5-96f69c3d148b'' \<or>
                app_id = JStr ''aeb2797f-f0a3-485c-a317-4986e2c8343b''
             then collect num_add srv rest applicationData
             else
               (case generateApplicationAnalytics num_add srv application of
                  None \<Rightarrow> None
                | Some (Inl e) \<Rightarrow> Some (Inl (stop (Exited 1) [FailedToGenerateAnalytics app_id]))
                | Some (Inr row) \<Rightarrow>
                    collect num_add srv rest (applicationData @ [(app_id, app_name, row)]))
         | _ \<Rightarrow> Some (Inl (stop (Uncaught TypeError) [])))
      else Some (Inl (stop (Exited 1) [MalformedApplicationObject])))"

text \<open>
  Lines 490 to 501: the text of the file. \<open>applicationData[0][2]\<close> on an empty list reads
  a property of \<open>undefined\<close>.
\<close>

definition render_row :: "(jsnum \<Rightarrow> string) \<Rightarrow> string list \<Rightarrow> entry \<Rightarrow> string" where
  "render_row str keys app =
     js_join str '',''
       (fst app # fst (snd app) #
        map (\<lambda>k. case map_of (snd (snd app)) k of None \<Rightarrow> JUndefined | Some n \<Rightarrow> JNum n) keys)"

definition render :: "(jsnum \<Rightarrow> string) \<Rightarrow> entry list \<Rightarrow> error + string" where
  "render str applicationData =
     (case applicationData of
        [] \<Rightarrow> Inl TypeError
      | first # _ \<Rightarrow>
          Inr (join_strings [CHR 0x0A]
                 (js_join str '','' (JStr ''ID'' # JStr ''Name'' # map JStr (map fst (snd (snd first))))
                  # map (render_row str (map fst (snd (snd first)))) applicationData)
               @ [CHR 0x0A]))"

definition main :: "environment \<Rightarrow> token \<Rightarrow> outcome option" where
  "main env customer =
     (case listApplications (api env) customer of
        Inl out \<Rightarrow> Some out
      | Inr applications \<Rightarrow>
          if js_truthy applications \<and> js_isArray applications then
            (case js_elements applications of
               Inl e \<Rightarrow> Some (stop (Uncaught e) [])
             | Inr apps \<Rightarrow>
                 (case collect (number_plus env) (api env) apps [] of
                    None \<Rightarrow> None
                  | Some (Inl out) \<Rightarrow> Some out
                  | Some (Inr applicationData) \<Rightarrow>
                      (case render (number_toString env) applicationData of
                         Inl e \<Rightarrow> Some (stop (Uncaught e) [])
                       | Inr outString \<Rightarrow>
                           (case writeFileSync env (argv_outputFile env) outString of
                              Some e \<Rightarrow>
                                Some (stop Completed [FailedToWriteOutputFile, CsvFileWritten])
                            | None \<Rightarrow>
                                Some \<lparr> ending = Completed, console = [CsvFileWritten],
                                       written = Some (argv_outputFile env, outString) \<rparr>))))
          else Some (stop (Exited 1) [UnexpectedApplicationsResponse]))"

text \<open>
  Lines 9 to 26 and the call of \<open>main\<close>. The customer token is minted inside the thunk
  of \<open>listApplications\<close>, from a secret that line 15 has found non-empty; should minting
  throw, the handler of \<open>listApplications\<close> prints its message and exits with code 1.
\<close>

definition script :: "environment \<Rightarrow> outcome option" where
  "script env =
     (case (js_get (dotenv_parsed env) ''CUSTOMER_ID'', js_get (dotenv_parsed env) ''CUSTOMER_SECRET'') of
        (Inr customer_id, Inr customer_secret) \<Rightarrow>
          if \<not> js_truthy customer_id then
            Some (stop (Uncaught (Err ''Missing CUSTOMER_ID in .env file'')) [])
          else if \<not> js_truthy customer_secret then
            Some (stop (Uncaught (Err ''Missing CUSTOMER_SECRET in .env file'')) [])
          else if \<not> js_truthy (argv_outputFile env) then
            Some (stop (Exited 1) [MissingOutputFile])
          else
            (case makeCustomerToken customer_id customer_secret of
               Inl e \<Rightarrow> Some (stop (Exited 1) [FailedToListApplications])
             | Inr customer \<Rightarrow> main env customer)
      | _ \<Rightarrow> Some (stop (Uncaught TypeError) []))"

section \<open>Definitions used to state the properties\<close>

text \<open>
  The count the specification asks of the content tree scanner, written from its words:
  the number of nodes in the tree under \<open>v\<close>, \<open>v\<close> included, whose \<open>type\<close> is
  \<open>"mention"\<close>, where the tree descends through the \<open>children\<close> array of each node that
  has one.
\<close>

function mention_nodes :: "jsval \<Rightarrow> nat" where
  "mention_nodes (JObj kvs) =
     (if map_of kvs ''type'' = Some (JStr ''mention'') then 1 else 0) +
     (case map_of kvs ''children'' of
        Some (JArr cs) \<Rightarrow> sum_list (map mention_nodes cs)
      | _ \<Rightarrow> 0)"
| "mention_nodes JUndefined = 0"
| "mention_nodes JNull = 0"
| "mention_nodes (JBool b) = 0"
| "mention_nodes (JNum n) = 0"
| "mention_nodes (JStr s) = 0"
| "mention_nodes (JArr xs) = 0"
  by pat_completeness auto
termination
proof (relation "measure size")
  show "wf (measure size)" by simp
next
  fix kvs :: "(string \<times> jsval) list" and x2 :: jsval and cs :: "jsval list" and x :: jsval
  assume "map_of kvs ''children'' = Some x2" "x2 = JArr cs" "x \<in> set cs"
  then have "size (JArr cs) < Suc (size_list (size_prod (\<lambda>_. 0) size) kvs)"
    using size_map_of [of kvs "''children''" "JArr cs"] by simp
  moreover from \<open>x \<in> set cs\<close> have "size x \<le> size_list size cs"
    by (rule size_list_estimation') simp
  ultimately show "(x, JObj kvs) \<in> measure size" by simp
qed

text \<open>
  A chain of \<open>D\<close> mention nodes, each the only child of the one before; the last has no
  \<open>children\<close>.
\<close>

fun mention_chain :: "nat \<Rightarrow> jsval list" where
  "mention_chain 0 = []"
| "mention_chain (Suc 0) = [JObj [(''type'', JStr ''mention'')]]"
| "mention_chain (Suc (Suc d)) =
     [JObj [(''type'', JStr ''mention''), (''children'', JArr (mention_chain (Suc d)))]]"

text \<open>
  What the aggregation adds for one record, field by field. \<open>field x k\<close> is the value of
  property \<open>k\<close> of the record, \<open>undefined\<close> when the record has no such property or is
  not an object. \<open>number_of k x\<close> is the Number a sum takes from the record: none, or the
  one in field \<open>k\<close>.
\<close>

fun field :: "jsval \<Rightarrow> string \<Rightarrow> jsval" where
  "field (JObj kvs) k = (case map_of kvs k of None \<Rightarrow> JUndefined | Some v \<Rightarrow> v)"
| "field v k = JUndefined"

definition status_is :: "string \<Rightarrow> jsval \<Rightarrow> int" where
  "status_is s x = (if field x ''status'' = JStr s then 1 else 0)"

definition truthy_field :: "string \<Rightarrow> jsval \<Rightarrow> int" where
  "truthy_field k x = (if js_truthy (field x k) then 1 else 0)"

definition number_of :: "string \<Rightarrow> jsval \<Rightarrow> jsnum list" where
  "number_of k x = (case field x k of JNum n \<Rightarrow> [n] | _ \<Rightarrow> [])"

definition length_field :: "string \<Rightarrow> jsval \<Rightarrow> int" where
  "length_field k x = (case field x k of JArr xs \<Rightarrow> int (length xs) | _ \<Rightarrow> 0)"

definition mentions_of :: "jsval \<Rightarrow> int" where
  "mentions_of m = (case field m ''content'' of JArr xs \<Rightarrow> int (sum_list (map mention_nodes xs)) | _ \<Rightarrow> 0)"

text \<open>
  The \<open>userID\<close> values found in the \<open>participants\<close> entries of one thread, in order.
\<close>

fun participant_id :: "jsval \<Rightarrow> jsval list" where
  "participant_id (JObj kvs) = (case map_of kvs ''userID'' of None \<Rightarrow> [] | Some v \<Rightarrow> [v])"
| "participant_id p = []"

definition participant_ids :: "jsval \<Rightarrow> jsval list" where
  "participant_ids t = (case field t ''participants'' of JArr ps \<Rightarrow> concat (map participant_id ps) | _ \<Rightarrow> [])"

text \<open>The value of one metric in the result of the aggregation.\<close>

definition metric :: "string \<Rightarrow> error + metrics \<Rightarrow> jsnum option" where
  "metric name r = (case r of Inl e \<Rightarrow> None | Inr row \<Rightarrow> map_of row name)"



text \<open>The test on \<open>pagination\<close> as a predicate on an object body.\<close>

definition has_pagination :: "jsval \<Rightarrow> bool" where
  "has_pagination d =
     (case field d ''pagination'' of
        JObj kvs \<Rightarrow> map_of kvs ''token'' \<noteq> None \<and> map_of kvs ''total'' \<noteq> None
      | _ \<Rightarrow> False)"

text \<open>
  Sample servers: one that serves three users in two pages, one whose only page is empty
  but declares a total of five, one that answers every request with status 200 and an
  HTML page.
\<close>

definition sample_token :: token where
  "sample_token = ServerToken (JStr ''app-1'') (JStr ''s3cret'')"

definition ok_response :: "jsval \<Rightarrow> response" where
  "ok_response body = \<lparr> status = 200, statusText = ''OK'', data = body \<rparr>"

definition first_page :: jsval where
  "first_page = JObj [(''users'', JArr [JStr ''a'', JStr ''b'']),
                      (''pagination'', JObj [(''token'', JStr ''t2''), (''total'', JNum (Finite 3))])]"

definition last_page :: jsval where
  "last_page = JObj [(''users'', JArr [JStr ''c'']),
                     (''pagination'', JObj [(''token'', JNull), (''total'', JNum (Finite 3))])]"

definition two_page_server :: server where
  "two_page_server sent rq =
     Inr (ok_response (if rq_token rq = None then first_page else last_page))"

definition short_server :: server where
  "short_server sent rq =
     Inr (ok_response (JObj [(''users'', JArr []),
                             (''pagination'', JObj [(''token'', JNull), (''total'', JNum (Finite 5))])]))"

definition html_server :: server where
  "html_server sent rq = Inr (ok_response (JStr ''<html>maintenance</html>''))"

text \<open>An application whose \<open>id\<close> is one of the two that \<open>main\<close> skips.\<close>

definition denylisted :: "jsval \<Rightarrow> bool" where
  "denylisted a \<longleftrightarrow>
     field a ''id'' = JStr ''923ecd44-198f-49a2-a4f5-96f69c3d148b'' \<or>
     field a ''id'' = JStr ''aeb2797f-f0a3-485c-a317-4986e2c8343b''"

text \<open>The keys of the metrics object, in the order of the object literal.\<close>

definition metric_names :: "string list" where
  "metric_names =
     [''Total User Count'', ''Active User Count'', ''Deleted User Count'',
      ''Total Group Count'', ''Active Group Count'', ''Deleted Group Count'',
      ''Slack Connected Group Count'', ''Total Thread Count'', ''Total Resolved Thread Count'',
      ''Total Message Count'', ''Total Deleted Message Count'', ''Total User Messages Count'',
      ''Total Action Messages Count'', ''Total Thread Participants Count'', ''Total Messages'',
      ''Total Mention Messages Count'', ''Total Reactions Count'', ''Total Attachments Count'']"

text \<open>
  The table as the specification describes it, written without the joins of the code.
  A line is its cells with a comma between neighbours. The cells of a data line are the
  id, the name and the texts of the values of the entry's own metrics object in its own
  insertion order. The text is the header line, \<open>ID\<close>, \<open>Name\<close> and the keys of the first
  entry's metrics object, then one line per entry in the order of the list, every line
  followed by a newline.
\<close>

fun csv_line :: "string list \<Rightarrow> string" where
  "csv_line [] = []"
| "csv_line (c # cs) = c @ concat (map (\<lambda>x. CHR '','' # x) cs)"

fun string_of :: "jsval \<Rightarrow> string" where
  "string_of (JStr s) = s"
| "string_of v = []"

definition csv_cells :: "(jsnum \<Rightarrow> string) \<Rightarrow> entry \<Rightarrow> string list" where
  "csv_cells str app =
     string_of (fst app) # string_of (fst (snd app)) # map (\<lambda>kv. str (snd kv)) (snd (snd app))"

definition csv_text :: "(jsnum \<Rightarrow> string) \<Rightarrow> entry list \<Rightarrow> string" where
  "csv_text str applicationData =
     concat (map (\<lambda>cells. csv_line cells @ [CHR 0x0A])
       ((''ID'' # ''Name'' # map fst (snd (snd (hd applicationData))))
        # map (csv_cells str) applicationData))"

text \<open>
  A runtime for the examples. It agrees with JavaScript where the examples use it: on
  integers whose sum stays below \<open>2^53\<close> floating-point addition is exact, and the text of
  an integer below \<open>10^21\<close> is its decimal numeral. Rounding, and the texts of fractions
  and of larger values, are not part of it.
\<close>

fun digits :: "nat \<Rightarrow> string" where
  "digits n =
     (if n < 10 then [''0123456789'' ! n]
      else digits (n div 10) @ [''0123456789'' ! (n mod 10)])"

declare digits.simps [simp del]

fun sample_plus :: "jsnum \<Rightarrow> jsnum \<Rightarrow> jsnum" where
  "sample_plus (Finite a) (Finite b) = Finite (a + b)"
| "sample_plus NaN b = NaN"
| "sample_plus a NaN = NaN"
| "sample_plus PosInf NegInf = NaN"
| "sample_plus NegInf PosInf = NaN"
| "sample_plus PosInf b = PosInf"
| "sample_plus a PosInf = PosInf"
| "sample_plus NegInf b = NegInf"
| "sample_plus a NegInf = NegInf"

fun sample_toString :: "jsnum \<Rightarrow> string" where
  "sample_toString (Finite q) =
     (if q < 0 then CHR ''-'' # digits (nat \<lfloor>- q\<rfloor>) else digits (nat \<lfloor>q\<rfloor>))"
| "sample_toString PosInf = ''Infinity''"
| "sample_toString NegInf = ''-Infinity''"
| "sample_toString NaN = ''NaN''"

text \<open>
  Sample environments. \<open>flaky_server\<close> serves the first page of users, then an HTML page
  with status 200, then the last page. \<open>maintenance_server\<close> serves the application list
  and the groups, and an HTML page with status 200 for users, threads and messages.
  \<open>catalog_server\<close> serves three applications, the second of them denylisted, and for
  each application its own collections. \<open>demo_server\<close> serves the given application list
  and empty collections. \<open>broken_server\<close> serves one application and, for every
  collection, an object without the item array.
\<close>

definition flaky_server :: server where
  "flaky_server sent rq =
     Inr (ok_response
       (if rq_token rq = None then first_page
        else if length sent = 1 then JStr ''<html>maintenance</html>''
        else last_page))"

definition demo_app :: jsval where
  "demo_app = JObj [(''id'', JStr ''app-1''), (''name'', JStr ''Demo''), (''secret'', JStr ''k1'')]"

definition denied_app :: jsval where
  "denied_app = JObj [(''id'', JStr ''923ecd44-198f-49a2-a4f5-96f69c3d148b''),
                      (''name'', JStr ''Internal''), (''secret'', JStr ''k0'')]"

definition other_app :: jsval where
  "other_app = JObj [(''id'', JStr ''app-2''), (''name'', JStr ''Other''), (''secret'', JStr ''k2'')]"

definition bad_app :: jsval where
  "bad_app = JObj [(''id'', JNum (Finite 5))]"

definition no_secret_app :: jsval where
  "no_secret_app = JObj [(''id'', JStr ''app-3''), (''name'', JStr ''Keyless''), (''secret'', JStr [])]"

definition maintenance_server :: server where
  "maintenance_server sent rq =
     Inr (ok_response
       (if rq_path rq = ''applications'' then JArr [demo_app]
        else if rq_path rq = ''groups'' then JArr []
        else JStr ''<html>maintenance</html>''))"

definition one_page :: "string \<Rightarrow> jsval list \<Rightarrow> jsval" where
  "one_page name items =
     JObj [(name, JArr items),
           (''pagination'', JObj [(''token'', JNull), (''total'', JNum (js_number (int (length items))))])]"

definition demo_users :: "jsval list" where
  "demo_users = [JObj [(''status'', JStr ''active'')], JObj [(''status'', JStr ''active'')],
                 JObj [(''status'', JStr ''deleted'')]]"

definition demo_groups :: "jsval list" where
  "demo_groups = [JObj [(''status'', JStr ''active''), (''connectToSlack'', JBool True)]]"

definition demo_threads :: "jsval list" where
  "demo_threads =
     [JObj [(''resolved'', JBool True), (''total'', JNum (Finite 5)),
            (''participants'', JArr [JObj [(''userID'', JStr ''u1'')]])]]"

definition demo_messages :: "jsval list" where
  "demo_messages =
     [JObj [(''reactions'', JArr [JStr ''like'', JStr ''heart'']),
            (''content'', JArr [JObj [(''type'', JStr ''p''),
                                      (''children'', JArr [JObj [(''type'', JStr ''mention'')]])]])],
      JObj [], JObj []]"

definition other_users :: "jsval list" where
  "other_users = [JObj [(''status'', JStr ''deleted'')]]"

definition other_threads :: "jsval list" where
  "other_threads =
     [JObj [(''total'', JNum (Finite 7)), (''userMessages'', JNum (Finite 6)),
            (''actionMessages'', JNum (Finite 1))],
      JObj [(''total'', JNum (Finite 4)), (''deletedMessages'', JNum (Finite 2)),
            (''participants'', JArr [JObj [(''userID'', JStr ''u1'')], JObj [(''userID'', JStr ''u2'')]])]]"

definition other_messages :: "jsval list" where
  "other_messages = [JObj [(''attachments'', JArr [JStr ''a.png''])], JObj []]"

definition catalog_server :: server where
  "catalog_server sent rq =
     Inr (ok_response
       (if rq_path rq = ''applications'' then JArr [demo_app, denied_app, other_app]
        else if rq_auth rq = ServerToken (JStr ''app-1'') (JStr ''k1'') then
          (if rq_path rq = ''users'' then one_page ''users'' demo_users
           else if rq_path rq = ''groups'' then JArr demo_groups
           else if rq_path rq = ''threads'' then one_page ''threads'' demo_threads
           else one_page ''messages'' demo_messages)
        else
          (if rq_path rq = ''users'' then one_page ''users'' other_users
           else if rq_path rq = ''groups'' then JArr []
           else if rq_path rq = ''threads'' then one_page ''threads'' other_threads
           else one_page ''messages'' other_messages)))"

definition empty_page :: "string \<Rightarrow> jsval" where
  "empty_page name = one_page name []"

definition demo_server :: "jsval \<Rightarrow> server" where
  "demo_server applications sent rq =
     Inr (ok_response
       (if rq_path rq = ''applications'' then applications
        else if rq_path rq = ''groups'' then JArr []
        else empty_page (rq_path rq)))"

definition sample_env ::
  "server \<Rightarrow> jsval \<Rightarrow> (jsval \<Rightarrow> string \<Rightarrow> error option) \<Rightarrow> environment" where
  "sample_env srv outputFile fs =
     \<lparr> dotenv_parsed = JObj [(''CUSTOMER_ID'', JStr ''cust-1''), (''CUSTOMER_SECRET'', JStr ''s3cret'')],
       argv_outputFile = outputFile,
       api = srv,
       writeFileSync = fs,
       number_plus = sample_plus,
       number_toString = sample_toString \<rparr>"

definition demo_env :: "jsval \<Rightarrow> jsval \<Rightarrow> (jsval \<Rightarrow> string \<Rightarrow> error option) \<Rightarrow> environment" where
  "demo_env applications outputFile fs = sample_env (demo_server applications) outputFile fs"

definition broken_server :: server where
  "broken_server sent rq =
     Inr (ok_response (if rq_path rq = ''applications'' then JArr [demo_app] else JObj []))"

section \<open>Properties of autoRetry\<close>



section \<open>Properties of countMentionsInMessageContent\<close>

lemma for_of_sum:
  "(\<And>x c. x \<in> set xs \<Longrightarrow> body x c = Inr (c + f x))
     \<Longrightarrow> for_of xs body c = Inr (c + sum_list (map f xs))"
  for f :: "'a \<Rightarrow> nat"
  by (induction xs arbitrary: c) (auto simp: seq_def)

lemma for_of_sum0:
  "(\<And>x c. x \<in> set xs \<Longrightarrow> body x c = Inr (c + f x))
     \<Longrightarrow> for_of xs body 0 = Inr (sum_list (map f xs))"
  for f :: "'a \<Rightarrow> nat"
  using for_of_sum [of xs body f 0] by simp

lemma countMentions_eq:
  "countMentionsInMessageContent arr = Inr (sum_list (map mention_nodes arr))"
proof (induction arr rule: countMentionsInMessageContent.induct)
  case (1 arr)
  show ?case
    apply (subst countMentionsInMessageContent.simps)
    apply (rule for_of_sum0)
    subgoal premises mem for thing count
    proof (cases thing)
      case (JObj kvs)
      show ?thesis
      proof (cases "map_of kvs ''children''")
        case None
        with JObj show ?thesis by (auto simp: seq_def js_and_def split: option.splits)
      next
        case (Some c)
        show ?thesis
        proof (cases c)
          case (JArr cs)
          have "countMentionsInMessageContent cs = Inr (sum_list (map mention_nodes cs))"
            using JObj Some JArr mem
            by (intro "1.IH"[of thing "map_of kvs ''type'' = Some (JStr ''mention'')" True])
               (auto simp: seq_def js_and_def split: option.splits)
          with JObj Some JArr show ?thesis by (auto simp: seq_def js_and_def split: option.splits)
        qed (use JObj Some in \<open>auto simp: seq_def js_and_def split: option.splits\<close>)
      qed
    qed (simp_all add: seq_def js_and_def)
    done
qed

lemma sum_list_mention_chain: "sum_list (map mention_nodes (mention_chain D)) = D"
  by (induction D rule: mention_chain.induct) simp_all

lemma mention_nodes_flat:
  "\<forall>x\<in>set arr. \<exists>kvs. x = JObj kvs \<and> map_of kvs ''type'' = Some (JStr ''mention'')
      \<and> map_of kvs ''children'' = None
   \<Longrightarrow> sum_list (map mention_nodes arr) = length arr"
  by (induction arr) auto

lemma mention_nodes_not_object:
  "\<not> (js_truthy x \<and> js_typeof x = ''object'') \<Longrightarrow> mention_nodes x = 0"
  by (cases x) simp_all

text \<open>
  C5. For every array, \<open>countMentionsInMessageContent\<close> returns (it does not throw) the
  number of nodes at any depth whose \<open>type\<close> is \<open>"mention"\<close>. In particular it returns 0
  on the empty array, \<open>N\<close> on a flat list of \<open>N\<close> mention nodes without children, and \<open>D\<close>
  on a chain of \<open>D\<close> nested single-child mention nodes; an entry that is not an object
  adds nothing, an object whose \<open>children\<close> is not an array adds only itself, and a node
  that is not a mention adds exactly what its children add.
\<close>

theorem countMentions_counts_mention_nodes:
  "countMentionsInMessageContent arr = Inr (sum_list (map mention_nodes arr)) \<and>
   countMentionsInMessageContent [] = Inr 0 \<and>
   ((\<forall>x\<in>set arr. \<exists>kvs. x = JObj kvs \<and> map_of kvs ''type'' = Some (JStr ''mention'')
        \<and> map_of kvs ''children'' = None)
      \<longrightarrow> countMentionsInMessageContent arr = Inr (length arr)) \<and>
   countMentionsInMessageContent (mention_chain D) = Inr D \<and>
   (\<not> (js_truthy x \<and> js_typeof x = ''object'')
      \<longrightarrow> countMentionsInMessageContent (x # rest) = countMentionsInMessageContent rest) \<and>
   ((\<forall>cs. map_of kvs ''children'' \<noteq> Some (JArr cs))
      \<longrightarrow> countMentionsInMessageContent [JObj kvs] =
            Inr (if map_of kvs ''type'' = Some (JStr ''mention'') then 1 else 0)) \<and>
   (map_of kvs ''type'' \<noteq> Some (JStr ''mention'') \<and> map_of kvs ''children'' = Some (JArr cs)
      \<longrightarrow> countMentionsInMessageContent [JObj kvs] = countMentionsInMessageContent cs)"
  by (auto simp: countMentions_eq sum_list_mention_chain mention_nodes_flat
        mention_nodes_not_object split: option.splits jsval.splits)

theorem countMentions_counts_mention_nodes_witness:
  "countMentionsInMessageContent
     [JObj [(''type'', JStr ''mention'')], JObj [(''type'', JStr ''mention'')]] = Inr 2 \<and>
   countMentionsInMessageContent (mention_chain (Suc (Suc (Suc 0)))) = Inr 3 \<and>
   countMentionsInMessageContent (JStr ''hello'' # []) = Inr 0 \<and>
   countMentionsInMessageContent [JObj [(''type'', JStr ''paragraph''), (''children'', JNum (Finite 7))]] = Inr 0 \<and>
   countMentionsInMessageContent
     [JObj [(''type'', JStr ''paragraph''),
            (''children'', JArr [JObj [(''type'', JStr ''mention'')], JStr ''text''])]] = Inr 1"
  using
    countMentions_counts_mention_nodes
      [of "[JObj [(''type'', JStr ''mention'')], JObj [(''type'', JStr ''mention'')]]"
          "Suc (Suc (Suc 0))" "JStr ''hello''" "[]"
          "[(''type'', JStr ''paragraph''), (''children'', JNum (Finite 7))]" "[]"]
    countMentions_counts_mention_nodes
      [of "[JObj [(''type'', JStr ''mention'')], JStr ''text'']"
          0 JNull "[]"
          "[(''type'', JStr ''paragraph''),
            (''children'', JArr [JObj [(''type'', JStr ''mention'')], JStr ''text''])]"
          "[JObj [(''type'', JStr ''mention'')], JStr ''text'']"]
  by simp

section \<open>Properties of the aggregation\<close>

lemma js_get_object:
  "js_truthy x \<Longrightarrow> js_typeof x = ''object'' \<Longrightarrow> js_get x k = Inr (field x k)"
  by (cases x) simp_all

lemma field_not_object:
  "\<not> (js_truthy x \<and> js_typeof x = ''object'') \<Longrightarrow> field x k = JUndefined"
  by (cases x) simp_all

lemma user_step_eq:
  "user_step u c = Inr \<lparr> activeUserCount = activeUserCount c + status_is ''active'' u,
                          deletedUserCount = deletedUserCount c + status_is ''deleted'' u \<rparr>"
  by (cases "js_truthy u \<and> js_typeof u = ''object''")
     (auto simp: user_step_def status_is_def seq_def js_get_object field_not_object)

lemma group_step_eq:
  "group_step g c = Inr \<lparr> activeGroupCount = activeGroupCount c + status_is ''active'' g,
                           deletedGroupCount = deletedGroupCount c + status_is ''deleted'' g,
                           slackConnectedGroupCount = slackConnectedGroupCount c + truthy_field ''connectToSlack'' g \<rparr>"
  by (cases "js_truthy g \<and> js_typeof g = ''object''")
     (auto simp: group_step_def status_is_def truthy_field_def seq_def js_get_object field_not_object)

lemma add_number_eq:
  "js_truthy x \<Longrightarrow> js_typeof x = ''object'' \<Longrightarrow>
     add_number num_add x k acc = Inr (foldl num_add acc (number_of k x))"
  by (auto simp: add_number_def number_of_def seq_def js_get_object split: jsval.splits)

lemma add_length_eq:
  "js_truthy x \<Longrightarrow> js_typeof x = ''object'' \<Longrightarrow> add_length x k acc = Inr (acc + length_field k x)"
  by (auto simp: add_length_def length_field_def seq_def js_get_object split: jsval.splits)

lemma participant_step_eq:
  "participant_step p members = Inr (fold set_add (participant_id p) members)"
  by (cases p) (auto simp: participant_step_def seq_def js_and_def split: option.splits)

lemma for_of_fold:
  "(\<And>x c. body x c = Inr (upd x c)) \<Longrightarrow> for_of xs body c = Inr (fold upd xs c)"
  by (induction xs arbitrary: c) (auto simp: seq_def)

lemma participants_loop:
  "for_of ps participant_step members = Inr (fold set_add (concat (map participant_id ps)) members)"
  by (induction ps arbitrary: members) (auto simp: seq_def participant_step_eq)

lemma thread_step_eq:
  "thread_step num_add t c = Inr
     \<lparr> totalResolvedThreadCount = totalResolvedThreadCount c + truthy_field ''resolved'' t,
       totalMessageCount = foldl num_add (totalMessageCount c) (number_of ''total'' t),
       totalDeletedMessageCount =
         foldl num_add (totalDeletedMessageCount c) (number_of ''deletedMessages'' t),
       totalActionMessagesCount =
         foldl num_add (totalActionMessagesCount c) (number_of ''actionMessages'' t),
       totalUserMessagesCount =
         foldl num_add (totalUserMessagesCount c) (number_of ''userMessages'' t),
       threadParticipants = fold set_add (participant_ids t) (threadParticipants c) \<rparr>"
proof (cases "js_truthy t \<and> js_typeof t = ''object''")
  case True
  then show ?thesis
    by (auto simp: thread_step_def seq_def js_get_object add_number_eq truthy_field_def
          participant_ids_def participants_loop split: jsval.splits)
next
  case False
  then show ?thesis
    by (auto simp: thread_step_def truthy_field_def number_of_def participant_ids_def
          field_not_object)
qed

lemma message_step_eq:
  "message_step m c = Inr
     \<lparr> totalMentionMessagesCount = totalMentionMessagesCount c + mentions_of m,
       totalReactionsCount = totalReactionsCount c + length_field ''reactions'' m,
       totalAttachmentsCount = totalAttachmentsCount c + length_field ''attachments'' m \<rparr>"
proof (cases "js_truthy m \<and> js_typeof m = ''object''")
  case True
  then show ?thesis
    by (auto simp: message_step_def seq_def js_get_object add_length_eq mentions_of_def
          countMentions_eq split: jsval.splits)
next
  case False
  then show ?thesis
    by (auto simp: message_step_def mentions_of_def length_field_def field_not_object)
qed

lemma users_loop:
  "for_of users user_step c = Inr
     \<lparr> activeUserCount = activeUserCount c + sum_list (map (status_is ''active'') users),
       deletedUserCount = deletedUserCount c + sum_list (map (status_is ''deleted'') users) \<rparr>"
  by (induction users arbitrary: c) (simp_all add: seq_def user_step_eq add.assoc)

lemma groups_loop:
  "for_of groups group_step c = Inr
     \<lparr> activeGroupCount = activeGroupCount c + sum_list (map (status_is ''active'') groups),
       deletedGroupCount = deletedGroupCount c + sum_list (map (status_is ''deleted'') groups),
       slackConnectedGroupCount =
         slackConnectedGroupCount c + sum_list (map (truthy_field ''connectToSlack'') groups) \<rparr>"
  by (induction groups arbitrary: c) (simp_all add: seq_def group_step_eq add.assoc)

lemma threads_loop:
  "for_of threads (thread_step num_add) c = Inr
     \<lparr> totalResolvedThreadCount =
         totalResolvedThreadCount c + sum_list (map (truthy_field ''resolved'') threads),
       totalMessageCount =
         foldl num_add (totalMessageCount c) (concat (map (number_of ''total'') threads)),
       totalDeletedMessageCount =
         foldl num_add (totalDeletedMessageCount c)
           (concat (map (number_of ''deletedMessages'') threads)),
       totalActionMessagesCount =
         foldl num_add (totalActionMessagesCount c)
           (concat (map (number_of ''actionMessages'') threads)),
       totalUserMessagesCount =
         foldl num_add (totalUserMessagesCount c)
           (concat (map (number_of ''userMessages'') threads)),
       threadParticipants =
         fold set_add (concat (map participant_ids threads)) (threadParticipants c) \<rparr>"
  by (induction threads arbitrary: c) (simp_all add: seq_def thread_step_eq add.assoc)

lemma messages_loop:
  "for_of messages message_step c = Inr
     \<lparr> totalMentionMessagesCount =
         totalMentionMessagesCount c + sum_list (map mentions_of messages),
       totalReactionsCount =
         totalReactionsCount c + sum_list (map (length_field ''reactions'') messages),
       totalAttachmentsCount =
         totalAttachmentsCount c + sum_list (map (length_field ''attachments'') messages) \<rparr>"
  by (induction messages arbitrary: c) (simp_all add: seq_def message_step_eq add.assoc)

lemma aggregate_eq:
  "aggregate num_add users groups threads messages = Inr
     [(''Total User Count'', js_number (int (length users))),
      (''Active User Count'', js_number (sum_list (map (status_is ''active'') users))),
      (''Deleted User Count'', js_number (sum_list (map (status_is ''deleted'') users))),
      (''Total Group Count'', js_number (int (length groups))),
      (''Active Group Count'', js_number (sum_list (map (status_is ''active'') groups))),
      (''Deleted Group Count'', js_number (sum_list (map (status_is ''deleted'') groups))),
      (''Slack Connected Group Count'',
         js_number (sum_list (map (truthy_field ''connectToSlack'') groups))),
      (''Total Thread Count'', js_number (int (length threads))),
      (''Total Resolved Thread Count'',
         js_number (sum_list (map (truthy_field ''resolved'') threads))),
      (''Total Message Count'',
         foldl num_add (Finite 0) (concat (map (number_of ''total'') threads))),
      (''Total Deleted Message Count'',
         foldl num_add (Finite 0) (concat (map (number_of ''deletedMessages'') threads))),
      (''Total User Messages Count'',
         foldl num_add (Finite 0) (concat (map (number_of ''userMessages'') threads))),
      (''Total Action Messages Count'',
         foldl num_add (Finite 0) (concat (map (number_of ''actionMessages'') threads))),
      (''Total Thread Participants Count'',
         js_number (int (length (fold set_add (concat (map participant_ids threads)) [])))),
      (''Total Messages'', js_number (int (length messages))),
      (''Total Mention Messages Count'', js_number (sum_list (map mentions_of messages))),
      (''Total Reactions Count'',
         js_number (sum_list (map (length_field ''reactions'') messages))),
      (''Total Attachments Count'',
         js_number (sum_list (map (length_field ''attachments'') messages)))]"
  by (simp add: aggregate_def users_loop groups_loop threads_loop messages_loop seq_def)

lemma length_fold_set_add:
  "length (fold set_add ids acc) =
     length acc + card (set (filter js_primitive ids) - set acc)
       + length (filter (\<lambda>v. \<not> js_primitive v) ids)"
proof (induction ids arbitrary: acc)
  case Nil
  then show ?case by simp
next
  case (Cons v ids)
  show ?case
  proof (cases "js_primitive v")
    case False
    then have "set (filter js_primitive ids) - set (acc @ [v]) = set (filter js_primitive ids) - set acc"
      by auto
    with False Cons.IH [of "acc @ [v]"] show ?thesis
      by (simp add: set_add_def)
  next
    case prim: True
    show ?thesis
    proof (cases "v \<in> set acc")
      case True
      then have "set (filter js_primitive (v # ids)) - set acc = set (filter js_primitive ids) - set acc"
        using prim by auto
      with True prim Cons.IH [of acc] show ?thesis
        by (simp add: set_add_def)
    next
      case False
      have "set (filter js_primitive (v # ids)) - set acc
              = insert v (set (filter js_primitive ids) - set (acc @ [v]))"
        using prim False by auto
      moreover have "v \<notin> set (filter js_primitive ids) - set (acc @ [v])" by simp
      ultimately have "card (set (filter js_primitive (v # ids)) - set acc)
              = Suc (card (set (filter js_primitive ids) - set (acc @ [v])))"
        by (simp del: set_append set_filter filter.simps)
      with False prim Cons.IH [of "acc @ [v]"] show ?thesis
        by (simp add: set_add_def)
    qed
  qed
qed

lemma metric_Active_User_Count:
  "metric ''Active User Count'' (aggregate num_add users groups threads messages) =
     Some (js_number (sum_list (map (status_is ''active'') users)))"
  by (simp add: aggregate_eq metric_def)

lemma metric_Deleted_User_Count:
  "metric ''Deleted User Count'' (aggregate num_add users groups threads messages) =
     Some (js_number (sum_list (map (status_is ''deleted'') users)))"
  by (simp add: aggregate_eq metric_def)

lemma metric_Active_Group_Count:
  "metric ''Active Group Count'' (aggregate num_add users groups threads messages) =
     Some (js_number (sum_list (map (status_is ''active'') groups)))"
  by (simp add: aggregate_eq metric_def)

lemma metric_Deleted_Group_Count:
  "metric ''Deleted Group Count'' (aggregate num_add users groups threads messages) =
     Some (js_number (sum_list (map (status_is ''deleted'') groups)))"
  by (simp add: aggregate_eq metric_def)

lemma metric_Slack_Connected_Group_Count:
  "metric ''Slack Connected Group Count'' (aggregate num_add users groups threads messages) =
     Some (js_number (sum_list (map (truthy_field ''connectToSlack'') groups)))"
  by (simp add: aggregate_eq metric_def)

lemma metric_Total_Resolved_Thread_Count:
  "metric ''Total Resolved Thread Count'' (aggregate num_add users groups threads messages) =
     Some (js_number (sum_list (map (truthy_field ''resolved'') threads)))"
  by (simp add: aggregate_eq metric_def)

lemma metric_Total_Message_Count:
  "metric ''Total Message Count'' (aggregate num_add users groups threads messages) =
     Some (foldl num_add (Finite 0) (concat (map (number_of ''total'') threads)))"
  by (simp add: aggregate_eq metric_def)

lemma metric_Total_Deleted_Message_Count:
  "metric ''Total Deleted Message Count'' (aggregate num_add users groups threads messages) =
     Some (foldl num_add (Finite 0) (concat (map (number_of ''deletedMessages'') threads)))"
  by (simp add: aggregate_eq metric_def)

lemma metric_Total_User_Messages_Count:
  "metric ''Total User Messages Count'' (aggregate num_add users groups threads messages) =
     Some (foldl num_add (Finite 0) (concat (map (number_of ''userMessages'') threads)))"
  by (simp add: aggregate_eq metric_def)

lemma metric_Total_Action_Messages_Count:
  "metric ''Total Action Messages Count'' (aggregate num_add users groups threads messages) =
     Some (foldl num_add (Finite 0) (concat (map (number_of ''actionMessages'') threads)))"
  by (simp add: aggregate_eq metric_def)

lemma metric_Total_Thread_Participants_Count:
  "metric ''Total Thread Participants Count'' (aggregate num_add users groups threads messages) =
     Some (js_number (int (length (fold set_add (concat (map participant_ids threads)) []))))"
  by (simp add: aggregate_eq metric_def)

lemma metric_Total_Mention_Messages_Count:
  "metric ''Total Mention Messages Count'' (aggregate num_add users groups threads messages) =
     Some (js_number (sum_list (map mentions_of messages)))"
  by (simp add: aggregate_eq metric_def)

lemma metric_Total_Reactions_Count:
  "metric ''Total Reactions Count'' (aggregate num_add users groups threads messages) =
     Some (js_number (sum_list (map (length_field ''reactions'') messages)))"
  by (simp add: aggregate_eq metric_def)

lemma metric_Total_Attachments_Count:
  "metric ''Total Attachments Count'' (aggregate num_add users groups threads messages) =
     Some (js_number (sum_list (map (length_field ''attachments'') messages)))"
  by (simp add: aggregate_eq metric_def)

lemmas metric_simps =
  metric_Active_User_Count
  metric_Deleted_User_Count
  metric_Active_Group_Count
  metric_Deleted_Group_Count
  metric_Slack_Connected_Group_Count
  metric_Total_Resolved_Thread_Count
  metric_Total_Message_Count
  metric_Total_Deleted_Message_Count
  metric_Total_User_Messages_Count
  metric_Total_Action_Messages_Count
  metric_Total_Thread_Participants_Count
  metric_Total_Mention_Messages_Count
  metric_Total_Reactions_Count
  metric_Total_Attachments_Count

lemma js_number_eq [simp]: "js_number a = js_number b \<longleftrightarrow> a = b"
  by (simp add: js_number_def)

lemma status_is_other: "field x ''status'' \<noteq> JStr s \<Longrightarrow> status_is s x = 0"
  by (simp add: status_is_def)

lemma number_of_other: "\<forall>n. field x k \<noteq> JNum n \<Longrightarrow> number_of k x = []"
  by (cases "field x k") (simp_all add: number_of_def)

lemma length_field_other: "\<forall>xs. field x k \<noteq> JArr xs \<Longrightarrow> length_field k x = 0"
  by (cases "field x k") (simp_all add: length_field_def)

lemma mentions_of_other: "\<forall>xs. field x ''content'' \<noteq> JArr xs \<Longrightarrow> mentions_of x = 0"
  by (cases "field x ''content''") (simp_all add: mentions_of_def)

lemma participant_ids_other: "\<forall>ps. field x ''participants'' \<noteq> JArr ps \<Longrightarrow> participant_ids x = []"
  by (cases "field x ''participants''") (simp_all add: participant_ids_def)

lemma truthy_field_falsy: "\<not> js_truthy (field x k) \<Longrightarrow> truthy_field k x = 0"
  by (simp add: truthy_field_def)

lemma truthy_field_truthy: "js_truthy (field x k) \<Longrightarrow> truthy_field k x = 1"
  by (simp add: truthy_field_def)

lemma aggregate_returns: "\<exists>row. aggregate num_add users groups threads messages = Inr row"
  by (simp add: aggregate_eq)


text \<open>
  C7, amended. The aggregation never throws. A record adds nothing to a status count
  unless its \<open>status\<close> is that very string, nothing to a sum unless the field is a
  number, nothing to a length sum, to the mention count or to the participant set unless
  the field is an array. \<open>resolved\<close> and \<open>connectToSlack\<close> are tested for truthiness: a
  missing or falsy value adds nothing, a truthy value of any type adds one.
\<close>

theorem aggregate_tolerant:
  "(\<exists>row. aggregate num_add users groups threads messages = Inr row) \<and>
   (field x ''status'' \<noteq> JStr ''active'' \<longrightarrow>
      metric ''Active User Count'' (aggregate num_add (pre @ x # post) b c d)
        = metric ''Active User Count'' (aggregate num_add (pre @ post) b c d) \<and>
      metric ''Active Group Count'' (aggregate num_add a (pre @ x # post) c d)
        = metric ''Active Group Count'' (aggregate num_add a (pre @ post) c d)) \<and>
   (field x ''status'' \<noteq> JStr ''deleted'' \<longrightarrow>
      metric ''Deleted User Count'' (aggregate num_add (pre @ x # post) b c d)
        = metric ''Deleted User Count'' (aggregate num_add (pre @ post) b c d) \<and>
      metric ''Deleted Group Count'' (aggregate num_add a (pre @ x # post) c d)
        = metric ''Deleted Group Count'' (aggregate num_add a (pre @ post) c d)) \<and>
   ((\<forall>n. field x ''total'' \<noteq> JNum n) \<longrightarrow>
      metric ''Total Message Count'' (aggregate num_add a b (pre @ x # post) d)
        = metric ''Total Message Count'' (aggregate num_add a b (pre @ post) d)) \<and>
   ((\<forall>n. field x ''deletedMessages'' \<noteq> JNum n) \<longrightarrow>
      metric ''Total Deleted Message Count'' (aggregate num_add a b (pre @ x # post) d)
        = metric ''Total Deleted Message Count'' (aggregate num_add a b (pre @ post) d)) \<and>
   ((\<forall>n. field x ''userMessages'' \<noteq> JNum n) \<longrightarrow>
      metric ''Total User Messages Count'' (aggregate num_add a b (pre @ x # post) d)
        = metric ''Total User Messages Count'' (aggregate num_add a b (pre @ post) d)) \<and>
   ((\<forall>n. field x ''actionMessages'' \<noteq> JNum n) \<longrightarrow>
      metric ''Total Action Messages Count'' (aggregate num_add a b (pre @ x # post) d)
        = metric ''Total Action Messages Count'' (aggregate num_add a b (pre @ post) d)) \<and>
   ((\<forall>ps. field x ''participants'' \<noteq> JArr ps) \<longrightarrow>
      metric ''Total Thread Participants Count'' (aggregate num_add a b (pre @ x # post) d)
        = metric ''Total Thread Participants Count'' (aggregate num_add a b (pre @ post) d)) \<and>
   ((\<forall>xs. field x ''reactions'' \<noteq> JArr xs) \<longrightarrow>
      metric ''Total Reactions Count'' (aggregate num_add a b c (pre @ x # post))
        = metric ''Total Reactions Count'' (aggregate num_add a b c (pre @ post))) \<and>
   ((\<forall>xs. field x ''attachments'' \<noteq> JArr xs) \<longrightarrow>
      metric ''Total Attachments Count'' (aggregate num_add a b c (pre @ x # post))
        = metric ''Total Attachments Count'' (aggregate num_add a b c (pre @ post))) \<and>
   ((\<forall>xs. field x ''content'' \<noteq> JArr xs) \<longrightarrow>
      metric ''Total Mention Messages Count'' (aggregate num_add a b c (pre @ x # post))
        = metric ''Total Mention Messages Count'' (aggregate num_add a b c (pre @ post))) \<and>
   (\<not> js_truthy (field x ''resolved'') \<longrightarrow>
      metric ''Total Resolved Thread Count'' (aggregate num_add a b (pre @ x # post) d)
        = metric ''Total Resolved Thread Count'' (aggregate num_add a b (pre @ post) d)) \<and>
   (\<not> js_truthy (field x ''connectToSlack'') \<longrightarrow>
      metric ''Slack Connected Group Count'' (aggregate num_add a (pre @ x # post) c d)
        = metric ''Slack Connected Group Count'' (aggregate num_add a (pre @ post) c d)) \<and>
   (js_truthy (field y ''resolved'') \<longrightarrow>
      (\<exists>k. metric ''Total Resolved Thread Count'' (aggregate num_add a b (pre @ post) d)
             = Some (js_number k) \<and>
           metric ''Total Resolved Thread Count'' (aggregate num_add a b (pre @ y # post) d)
             = Some (js_number (k + 1)))) \<and>
   (js_truthy (field y ''connectToSlack'') \<longrightarrow>
      (\<exists>k. metric ''Slack Connected Group Count'' (aggregate num_add a (pre @ post) c d)
             = Some (js_number k) \<and>
           metric ''Slack Connected Group Count'' (aggregate num_add a (pre @ y # post) c d)
             = Some (js_number (k + 1))))"
  by (intro conjI impI aggregate_returns)
     (simp_all add: metric_simps status_is_other number_of_other length_field_other
        mentions_of_other participant_ids_other truthy_field_falsy truthy_field_truthy)

theorem aggregate_tolerant_witness:
  "(\<exists>row. aggregate sample_plus [JNull, JStr ''x''] [JNum (Finite 1)] [JObj [(''total'', JStr ''not-a-number'')]] [JArr []]
            = Inr row) \<and>
   metric ''Total Message Count''
       (aggregate sample_plus [] [] [JObj [(''total'', JStr ''not-a-number''), (''status'', JNum (Finite 3))]] [])
     = metric ''Total Message Count'' (aggregate sample_plus [] [] [] []) \<and>
   metric ''Total Reactions Count''
       (aggregate sample_plus [] [] [] [JObj [(''total'', JStr ''not-a-number''), (''status'', JNum (Finite 3))]])
     = metric ''Total Reactions Count'' (aggregate sample_plus [] [] [] []) \<and>
   metric ''Active User Count''
       (aggregate sample_plus [JObj [(''total'', JStr ''not-a-number''), (''status'', JNum (Finite 3))]] [] [] [])
     = metric ''Active User Count'' (aggregate sample_plus [] [] [] []) \<and>
   (\<exists>k. metric ''Total Resolved Thread Count'' (aggregate sample_plus [] [] [] [])
          = Some (js_number k) \<and>
        metric ''Total Resolved Thread Count''
          (aggregate sample_plus [] [] [JObj [(''resolved'', JStr ''no''), (''connectToSlack'', JNum (Finite 1))]] [])
          = Some (js_number (k + 1)))"
  using aggregate_tolerant
    [of sample_plus "[JNull, JStr ''x'']" "[JNum (Finite 1)]" "[JObj [(''total'', JStr ''not-a-number'')]]" "[JArr []]"
        "JObj [(''total'', JStr ''not-a-number''), (''status'', JNum (Finite 3))]"
        "[]" "[]" "[]" "[]" "[]" "[]"
        "JObj [(''resolved'', JStr ''no''), (''connectToSlack'', JNum (Finite 1))]"]
  by simp

text \<open>
  C6. For every list of thread records, "Total Thread Participants Count" is the number
  of distinct \<open>userID\<close> values found in the \<open>participants\<close> entries across all threads.
  Strings, numbers, booleans and \<open>null\<close> are distinct when they differ as values; an
  object or an array is distinct from every other value. So when every \<open>userID\<close> is a
  primitive (the API's are strings), the metric is the cardinality of the set of the
  \<open>userID\<close> values, and a \<open>userID\<close> that occurs in two threads is counted once.
\<close>

theorem thread_participants_count_distinct:
  "metric ''Total Thread Participants Count'' (aggregate num_add users groups threads messages)
     = Some (js_number
         (int (card (set (filter js_primitive (concat (map participant_ids threads))))
               + length (filter (\<lambda>v. \<not> js_primitive v) (concat (map participant_ids threads)))))) \<and>
   ((\<forall>v \<in> set (concat (map participant_ids threads)). js_primitive v) \<longrightarrow>
      metric ''Total Thread Participants Count'' (aggregate num_add users groups threads messages)
        = Some (js_number (int (card (set (concat (map participant_ids threads)))))))"
proof -
  have all: "(\<forall>v \<in> set ids. js_primitive v) \<Longrightarrow> filter js_primitive ids = ids
      \<and> filter (\<lambda>v. \<not> js_primitive v) ids = []" for ids
    by (induction ids) auto
  show ?thesis
    using all [of "concat (map participant_ids threads)"]
    by (simp add: aggregate_eq metric_def length_fold_set_add del: set_concat)
qed

theorem thread_participants_count_distinct_witness:
  "metric ''Total Thread Participants Count''
     (aggregate sample_plus [] []
        [JObj [(''participants'', JArr [JObj [(''userID'', JStr ''u1'')]])],
         JObj [(''participants'', JArr [JObj [(''userID'', JStr ''u1'')]])]] [])
     = Some (Finite 1)"
  using thread_participants_count_distinct
    [of sample_plus "[]" "[]" "[JObj [(''participants'', JArr [JObj [(''userID'', JStr ''u1'')]])],
         JObj [(''participants'', JArr [JObj [(''userID'', JStr ''u1'')]])]]" "[]"]
  by (simp add: participant_ids_def js_number_def)

text \<open>
  C7, as stated, fails on the two fields that are tested for truthiness: a thread whose
  \<open>resolved\<close> is the string \<open>"no"\<close> adds one to "Total Resolved Thread Count", and a group
  whose \<open>connectToSlack\<close> is the string \<open>"false"\<close> adds one to "Slack Connected Group
  Count".
\<close>

theorem truthy_wrong_type_counts:
  "metric ''Total Resolved Thread Count''
     (aggregate sample_plus [] [] [JObj [(''resolved'', JStr ''no'')]] []) = Some (Finite 1) \<and>
   metric ''Slack Connected Group Count''
     (aggregate sample_plus [] [JObj [(''connectToSlack'', JStr ''false'')]] [] []) = Some (Finite 1)"
  by (simp add: aggregate_eq metric_def truthy_field_def js_number_def)

section \<open>Properties of the paginated fetches\<close>

lemma autoRetry_axios_get:
  assumes "autoRetry (axios_get srv rq) hist = (out, hist')"
  shows "(\<exists>resp. out = Inr resp \<and> hist' = hist @ [(rq, Inr resp)]) \<or>
         (\<exists>e. hist' = hist @ [(rq, Inl e), (rq, out)])"
proof (cases "srv (map fst hist) rq")
  case (Inl e)
  with assms have "hist' = hist @ [(rq, Inl e), (rq, out)]"
    by (auto simp: autoRetry_def axios_get_def)
  then show ?thesis by blast
next
  case (Inr resp)
  with assms have "out = Inr resp \<and> hist' = hist @ [(rq, Inr resp)]"
    by (auto simp: autoRetry_def axios_get_def)
  then show ?thesis by blast
qed


lemmas fetch_pages_induct = fetch_pages.raw_induct [rotated 1, consumes 1]

lemma fetch_pages_log_aux:
  assumes "fetch_pages srv r tok items cur hist = Some y"
  shows "\<exists>out more. snd y = hist @ (page_request r tok cur, out) # more"
  using assms
proof (induction srv r tok items cur hist y rule: fetch_pages_induct)
  case (1 f srv r tok items cur hist y)
  obtain out log1 where ar: "autoRetry (axios_get srv (page_request r tok cur)) hist = (out, log1)"
    by (cases "autoRetry (axios_get srv (page_request r tok cur)) hist") auto
  from autoRetry_axios_get [OF ar]
  obtain o1 m1 where log1: "log1 = hist @ (page_request r tok cur, o1) # m1"
    by auto
  show ?case
  proof (cases out)
    case (Inl e)
    with 1(2) ar log1 show ?thesis by auto
  next
    case (Inr resp)
    show ?thesis
    proof (cases "page_body r resp items cur")
      case (Inl e)
      with 1(2) ar Inr log1 show ?thesis by auto
    next
      case pb: (Inr p)
      obtain items' cur' where p: "p = (items', cur')" by (cases p) auto
      show ?thesis
      proof (cases "cur' = JNull")
        case True
        with 1(2) ar Inr pb p log1 show ?thesis by auto
      next
        case False
        with 1(2) ar Inr pb p have "f srv r tok items' cur' log1 = Some y"
          by simp
        from 1(1) [OF this] log1 show ?thesis by auto
      qed
    qed
  qed
qed


lemma seq_Inr: "seq (Inr v) f = f v"
  by (simp add: seq_def)

lemma seq_Inl: "seq (Inl e) f = Inl e"
  by (simp add: seq_def)

lemma js_in_object:
  "js_truthy x \<Longrightarrow> js_typeof x = ''object'' \<Longrightarrow> js_in k x = Inr (\<exists>kvs. x = JObj kvs \<and> map_of kvs k \<noteq> None)"
  by (cases x) simp_all

lemma pagination_ok_eq:
  assumes "js_truthy d" "js_typeof d = ''object''"
  shows "pagination_ok d = Inr (has_pagination d)"
proof (cases d)
  case (JObj kvs)
  show ?thesis
  proof (cases "map_of kvs ''pagination''")
    case None
    with JObj show ?thesis
      by (simp add: pagination_ok_def has_pagination_def js_and_def)
  next
    case (Some p)
    with JObj show ?thesis
      by (cases p) (simp_all add: pagination_ok_def has_pagination_def js_and_def seq_def)
  qed
next
  case (JArr xs)
  then show ?thesis
    by (simp add: pagination_ok_def has_pagination_def js_and_def)
qed (use assms in simp_all)

lemma has_items_eq:
  assumes "js_truthy d" "js_typeof d = ''object''"
  shows "js_and (js_in k d) (seq (js_get d k) (\<lambda>v. Inr (js_isArray v)))
           = Inr (\<exists>xs. field d k = JArr xs)"
proof (cases d)
  case (JObj kvs)
  show ?thesis
  proof (cases "map_of kvs k")
    case None
    with JObj show ?thesis by (simp add: js_and_def)
  next
    case (Some v)
    with JObj show ?thesis by (cases v) (simp_all add: js_and_def seq_def)
  qed
next
  case (JArr xs)
  then show ?thesis by (simp add: js_and_def)
qed (use assms in simp_all)

lemma page_body_object:
  assumes "status resp = 200" "js_truthy (data resp)" "js_typeof (data resp) = ''object''"
  shows "page_body r resp items cur =
     (case field (data resp) (res_field r) of
        JArr xs \<Rightarrow>
          if has_pagination (data resp)
          then Inr (items @ xs, field (field (data resp) ''pagination'') ''token'')
          else Inl (Err (res_bad_pagination r))
      | _ \<Rightarrow> Inl (Err (res_no_items r)))"
proof -
  note hi = has_items_eq [OF assms(2,3)] and po = pagination_ok_eq [OF assms(2,3)]
  have body: "page_body r resp items cur =
      (if \<exists>xs. field (data resp) (res_field r) = JArr xs then
         seq (js_elements (field (data resp) (res_field r))) (\<lambda>page.
           if has_pagination (data resp)
           then seq (seq (js_get (data resp) ''pagination'') (\<lambda>p. js_get p ''token''))
                  (\<lambda>t. Inr (items @ page, t))
           else Inl (Err (res_bad_pagination r)))
       else Inl (Err (res_no_items r)))"
    unfolding page_body_def hi po
    using assms by (simp add: js_get_object seq_Inr)
  show ?thesis
  proof (cases "field (data resp) (res_field r)")
    case (JArr xs)
    show ?thesis
    proof (cases "has_pagination (data resp)")
      case False
      with JArr show ?thesis by (simp add: body seq_Inr)
    next
      case True
      then obtain kvs where "field (data resp) ''pagination'' = JObj kvs"
        by (cases "field (data resp) ''pagination''") (simp_all add: has_pagination_def)
      with True JArr assms show ?thesis by (simp add: body seq_Inr js_get_object)
    qed
  qed (simp_all add: body)
qed

lemma page_body_not_object:
  "status resp = 200 \<Longrightarrow> \<not> (js_truthy (data resp) \<and> js_typeof (data resp) = ''object'')
     \<Longrightarrow> page_body r resp items cur = Inr (items, cur)"
  by (auto simp: page_body_def)

lemma page_body_status:
  "status resp \<noteq> 200 \<Longrightarrow>
     page_body r resp items cur = Inl (ErrStatus (res_bad_status r) (status resp) (statusText resp))"
  by (simp add: page_body_def)

lemmas sample_defs = sample_token_def ok_response_def first_page_def last_page_def
  two_page_server_def short_server_def html_server_def

lemmas fetch_defs = autoRetry_def axios_get_def page_request_def page_body_def pagination_ok_def
  seq_def js_and_def users_resource_def threads_resource_def messages_resource_def


lemma getUsers_html:
  "getUsers html_server tok =
     Some (Inr [], [(page_request users_resource tok JNull,
                     Inr (ok_response (JStr ''<html>maintenance</html>'')))])"
  unfolding getUsers_def
  by (subst fetch_pages.simps) (simp add: fetch_defs sample_defs)


text \<open>
  C1 asks that a page with status 200 whose body is not an object at all makes the fetch
  fail with the malformed-response error. On the code it does not: the three fetches
  accept such a body, add nothing, keep the cursor they hold, and here, on the first
  page, return the empty list without an error.
\<close>

theorem non_object_body_is_accepted:
  "getUsers html_server tok =
     Some (Inr [], [(page_request users_resource tok JNull,
                     Inr (ok_response (JStr ''<html>maintenance</html>'')))]) \<and>
   getThreads html_server tok =
     Some (Inr [], [(page_request threads_resource tok JNull,
                     Inr (ok_response (JStr ''<html>maintenance</html>'')))]) \<and>
   getMessages html_server tok =
     Some (Inr [], [(page_request messages_resource tok JNull,
                     Inr (ok_response (JStr ''<html>maintenance</html>'')))])"
  unfolding getUsers_def getThreads_def getMessages_def
  by (intro conjI; subst fetch_pages.simps) (simp_all add: fetch_defs sample_defs)




text \<open>
  The part of C1 that the code does implement: an object body without the item array
  or without a well-formed \<open>pagination\<close> ends the fetch with the fixed error, after the one
  request that brought it.
\<close>

lemma malformed_object_body_is_fatal:
  assumes "srv (map fst hist) (page_request r tok cur) = Inr resp"
    and "status resp = 200" "js_truthy (data resp)" "js_typeof (data resp) = ''object''"
    and "(\<forall>xs. field (data resp) (res_field r) \<noteq> JArr xs) \<or> \<not> has_pagination (data resp)"
  shows "\<exists>msg. msg \<in> {res_no_items r, res_bad_pagination r} \<and>
           fetch_pages srv r tok items cur hist =
             Some (Inl (Err msg), hist @ [(page_request r tok cur, Inr resp)])"
proof -
  have ar: "autoRetry (axios_get srv (page_request r tok cur)) hist
              = (Inr resp, hist @ [(page_request r tok cur, Inr resp)])"
    using assms(1) by (simp add: autoRetry_def axios_get_def)
  have "\<exists>msg. msg \<in> {res_no_items r, res_bad_pagination r} \<and>
          page_body r resp items cur = Inl (Err msg)"
    using assms(5)
    by (cases "field (data resp) (res_field r)")
       (auto simp: page_body_object [OF assms(2,3,4)])
  then obtain msg where "msg \<in> {res_no_items r, res_bad_pagination r}"
    "page_body r resp items cur = Inl (Err msg)" by blast
  then show ?thesis
    by (subst fetch_pages.simps) (auto simp: ar)
qed

lemma first_request_no_cursor:
  assumes "fetch_pages srv r tok [] JNull [] = Some (res, hist)"
  shows "hist \<noteq> [] \<and> rq_token (fst (hd hist)) = None"
  using fetch_pages_log_aux [OF assms] by (auto simp: page_request_def)

lemma fetch_pages_step:
  assumes "autoRetry (axios_get srv (page_request r tok cur)) log0 = (Inr resp, log1)"
    and "page_body r resp items cur = Inr (items', cur')"
  shows "fetch_pages srv r tok items cur log0 =
           (if cur' \<noteq> JNull then fetch_pages srv r tok items' cur' log1
            else Some (Inr items', log1))"
  by (subst fetch_pages.simps) (simp add: assms)

text \<open>
  What the loop does with the cursor it holds. The first request carries no \<open>token\<close>
  parameter. After a response the loop has processed, with \<open>cur'\<close> the cursor it then
  holds: when \<open>cur'\<close> is \<open>null\<close> the fetch returns at once; when it is not, the fetch goes
  on with a request that carries \<open>cur'\<close>. For a response whose body is an object \<open>cur'\<close> is
  that response's \<open>pagination.token\<close>, whatever the page holds.
\<close>

lemma cursor_is_followed_on_object_bodies:
  "(getUsers srv tok = Some (res, hist) \<longrightarrow> hist \<noteq> [] \<and> rq_token (fst (hd hist)) = None) \<and>
   (getThreads srv tok = Some (res, hist) \<longrightarrow> hist \<noteq> [] \<and> rq_token (fst (hd hist)) = None) \<and>
   (getMessages srv tok = Some (res, hist) \<longrightarrow> hist \<noteq> [] \<and> rq_token (fst (hd hist)) = None) \<and>
   (autoRetry (axios_get srv (page_request r tok cur)) log0 = (Inr resp, log1) \<and>
    page_body r resp items cur = Inr (items', cur') \<longrightarrow>
      (cur' = JNull \<longrightarrow> fetch_pages srv r tok items cur log0 = Some (Inr items', log1)) \<and>
      (cur' \<noteq> JNull \<longrightarrow>
         fetch_pages srv r tok items cur log0 = fetch_pages srv r tok items' cur' log1 \<and>
         rq_token (page_request r tok cur') = Some cur' \<and>
         (\<forall>res' hist'. fetch_pages srv r tok items cur log0 = Some (res', hist') \<longrightarrow>
            (\<exists>out more. hist' = log1 @ (page_request r tok cur', out) # more)))) \<and>
   (status resp = 200 \<and> js_truthy (data resp) \<and> js_typeof (data resp) = ''object'' \<and>
    page_body r resp items cur = Inr (items', cur') \<longrightarrow>
      cur' = field (field (data resp) ''pagination'') ''token'')"
proof (intro conjI impI)
  assume "status resp = 200 \<and> js_truthy (data resp) \<and> js_typeof (data resp) = ''object'' \<and>
    page_body r resp items cur = Inr (items', cur')"
  then show "cur' = field (field (data resp) ''pagination'') ''token''"
    by (cases "field (data resp) (res_field r)")
       (auto simp: page_body_object split: if_splits)
next
  assume h: "autoRetry (axios_get srv (page_request r tok cur)) log0 = (Inr resp, log1) \<and>
    page_body r resp items cur = Inr (items', cur')"
  then have step: "fetch_pages srv r tok items cur log0 =
           (if cur' \<noteq> JNull then fetch_pages srv r tok items' cur' log1
            else Some (Inr items', log1))"
    by (simp add: fetch_pages_step)
  {
    assume "cur' = JNull"
    with step show "fetch_pages srv r tok items cur log0 = Some (Inr items', log1)" by simp
  }
  {
    assume ne: "cur' \<noteq> JNull"
    with step show eq: "fetch_pages srv r tok items cur log0 = fetch_pages srv r tok items' cur' log1"
      by simp
    from ne show "rq_token (page_request r tok cur') = Some cur'"
      by (simp add: page_request_def)
    show "\<forall>res' hist'. fetch_pages srv r tok items cur log0 = Some (res', hist') \<longrightarrow>
            (\<exists>out more. hist' = log1 @ (page_request r tok cur', out) # more)"
      using fetch_pages_log_aux [of srv r tok items' cur' log1] eq by auto
  }
qed (auto simp: getUsers_def getThreads_def getMessages_def dest: first_request_no_cursor)

lemmas flaky_defs = flaky_server_def ok_response_def first_page_def last_page_def

text \<open>
  C2 asks that a further page is requested exactly when the cursor of the previous
  response is not \<open>null\<close>. On the code a response with status 200 whose body is not an
  object brings no cursor, and the loop, which lets such a body pass (the missing \<open>else\<close>
  of C1), asks again with the cursor of an earlier page. Here the first response hands
  out the cursor \<open>"t2"\<close>, the second is an HTML page and the third is the last page: the
  second request and the third both carry \<open>"t2"\<close>, and the fetch returns the items of the
  first and the third response without an error.
\<close>

theorem stale_cursor_is_requested_again:
  "getUsers flaky_server tok =
     Some (Inr [JStr ''a'', JStr ''b'', JStr ''c''],
       [(page_request users_resource tok JNull, Inr (ok_response first_page)),
        (page_request users_resource tok (JStr ''t2''),
           Inr (ok_response (JStr ''<html>maintenance</html>''))),
        (page_request users_resource tok (JStr ''t2''), Inr (ok_response last_page))])"
  unfolding getUsers_def
  apply (subst fetch_pages.simps)
  apply (simp add: fetch_defs flaky_defs)
  apply (subst fetch_pages.simps)
  apply (simp add: fetch_defs flaky_defs)
  apply (subst fetch_pages.simps)
  apply (simp add: fetch_defs flaky_defs)
  done

section \<open>Properties of main\<close>

lemma aggregate_keys:
  "aggregate num_add users groups threads messages = Inr row \<Longrightarrow> map fst row = metric_names"
  by (auto simp: aggregate_eq metric_names_def)

lemma distinct_metric_names: "distinct metric_names"
  by (simp add: metric_names_def)

lemma generate_keys:
  assumes "generateApplicationAnalytics num_add srv app = Some (Inr row)"
  shows "map fst row = metric_names"
proof -
  from assms obtain u g t m where "aggregate num_add u g t m = Inr row"
    by (auto simp: generateApplicationAnalytics_def
          split: sum.splits if_splits prod.splits option.splits)
  then show ?thesis by (rule aggregate_keys)
qed

lemma js_typeof_string: "js_typeof v = ''string'' \<Longrightarrow> \<exists>s. v = JStr s"
  by (cases v) simp_all

lemma application_valid_strings:
  assumes "application_valid app = Inr True"
  shows "(\<exists>s. field app ''id'' = JStr s) \<and> (\<exists>s. field app ''name'' = JStr s)"
proof (cases app)
  case (JObj kvs)
  with assms have "js_typeof (field app ''id'') = ''string''"
    and "js_typeof (field app ''name'') = ''string''"
    by (auto simp: application_valid_def js_and_def seq_def split: if_splits)
  then show ?thesis by (simp add: js_typeof_string)
qed (use assms in \<open>simp_all add: application_valid_def js_and_def\<close>)

lemma generate_valid:
  assumes "generateApplicationAnalytics num_add srv app = Some (Inr row)"
  shows "application_valid app = Inr True"
  using assms
  by (auto simp: generateApplicationAnalytics_def split: sum.splits if_splits)

lemma collect_cons:
  "js_truthy a \<Longrightarrow> js_typeof a = ''object'' \<Longrightarrow>
   collect num_add srv (a # rest) acc =
     (if denylisted a then collect num_add srv rest acc
      else (case generateApplicationAnalytics num_add srv a of
              None \<Rightarrow> None
            | Some (Inl e) \<Rightarrow> Some (Inl (stop (Exited 1) [FailedToGenerateAnalytics (field a ''id'')]))
            | Some (Inr row) \<Rightarrow> collect num_add srv rest (acc @ [(field a ''id'', field a ''name'', row)])))"
  by (simp add: js_get_object denylisted_def)

lemma collect_not_object:
  "\<not> (js_truthy a \<and> js_typeof a = ''object'') \<Longrightarrow>
   collect num_add srv (a # rest) acc = Some (Inl (stop (Exited 1) [MalformedApplicationObject]))"
  by auto

declare collect.simps(2) [simp del]

lemma collect_entries:
  assumes "collect num_add srv apps acc = Some (Inr applicationData)"
  shows "\<exists>new. applicationData = acc @ new \<and>
           (\<forall>e \<in> set new. map fst (snd (snd e)) = metric_names) \<and>
           (\<forall>e \<in> set new. (\<exists>s. fst e = JStr s) \<and> (\<exists>s. fst (snd e) = JStr s)) \<and>
           map fst new = map (\<lambda>a. field a ''id'') (filter (\<lambda>a. \<not> denylisted a) apps) \<and>
           map (\<lambda>e. fst (snd e)) new = map (\<lambda>a. field a ''name'') (filter (\<lambda>a. \<not> denylisted a) apps)"
  using assms
proof (induction apps arbitrary: acc)
  case Nil
  then show ?case by simp
next
  case (Cons a rest)
  show ?case
  proof (cases "js_truthy a \<and> js_typeof a = ''object''")
    case False
    with Cons.prems show ?thesis by (simp add: collect_not_object)
  next
    case True
    then have obj: "js_truthy a" "js_typeof a = ''object''" by simp_all
    show ?thesis
    proof (cases "denylisted a")
      case True
      with Cons.prems obj have "collect num_add srv rest acc = Some (Inr applicationData)"
        by (simp add: collect_cons)
      from Cons.IH [OF this] True show ?thesis by simp
    next
      case False
      with Cons.prems obj obtain row
        where g: "generateApplicationAnalytics num_add srv a = Some (Inr row)"
          and c: "collect num_add srv rest (acc @ [(field a ''id'', field a ''name'', row)])
                    = Some (Inr applicationData)"
        by (auto simp: collect_cons split: option.splits sum.splits)
      from Cons.IH [OF c] obtain new where new:
        "applicationData = (acc @ [(field a ''id'', field a ''name'', row)]) @ new"
        "\<forall>e \<in> set new. map fst (snd (snd e)) = metric_names"
        "\<forall>e \<in> set new. (\<exists>s. fst e = JStr s) \<and> (\<exists>s. fst (snd e) = JStr s)"
        "map fst new = map (\<lambda>a. field a ''id'') (filter (\<lambda>a. \<not> denylisted a) rest)"
        "map (\<lambda>e. fst (snd e)) new = map (\<lambda>a. field a ''name'') (filter (\<lambda>a. \<not> denylisted a) rest)"
        by blast
      let ?new = "(field a ''id'', field a ''name'', row) # new"
      from new False generate_keys [OF g] application_valid_strings [OF generate_valid [OF g]]
      have "applicationData = acc @ ?new \<and>
           (\<forall>e \<in> set ?new. map fst (snd (snd e)) = metric_names) \<and>
           (\<forall>e \<in> set ?new. (\<exists>s. fst e = JStr s) \<and> (\<exists>s. fst (snd e) = JStr s)) \<and>
           map fst ?new = map (\<lambda>a. field a ''id'') (filter (\<lambda>a. \<not> denylisted a) (a # rest)) \<and>
           map (\<lambda>e. fst (snd e)) ?new = map (\<lambda>a. field a ''name'') (filter (\<lambda>a. \<not> denylisted a) (a # rest))"
        by simp
      then show ?thesis by blast
    qed
  qed
qed

lemma collect_stops:
  assumes "collect num_add srv apps acc = Some (Inl out)"
  shows "ending out = Exited 1 \<and> written out = None"
  using assms
proof (induction apps arbitrary: acc)
  case Nil
  then show ?case by simp
next
  case (Cons a rest)
  show ?case
  proof (cases "js_truthy a \<and> js_typeof a = ''object''")
    case False
    with Cons.prems show ?thesis by (auto simp: collect_not_object stop_def)
  next
    case True
    then have obj: "js_truthy a" "js_typeof a = ''object''" by simp_all
    from Cons.prems Cons.IH show ?thesis
      unfolding collect_cons [OF obj]
      by (auto simp: stop_def split: if_splits option.splits sum.splits)
  qed
qed

lemma collect_denylisted:
  "\<forall>a \<in> set apps. js_truthy a \<and> js_typeof a = ''object'' \<and> denylisted a
     \<Longrightarrow> collect num_add srv apps acc = Some (Inr acc)"
  by (induction apps) (simp_all add: collect_cons)

lemma lookup_own_keys:
  assumes "distinct (map fst row)"
  shows "map (\<lambda>k. case map_of row k of None \<Rightarrow> JUndefined | Some n \<Rightarrow> JNum n) (map fst row)
           = map (\<lambda>kv. JNum (snd kv)) row"
proof -
  have "map_of row (fst kv) = Some (snd kv)" if "kv \<in> set row" for kv
    using assms that by (cases kv) simp
  then show ?thesis by (simp add: comp_def)
qed

lemma join_strings_cons:
  "join_strings sep (y # ys) = y @ concat (map (\<lambda>x. sep @ x) ys)"
  by (induction ys arbitrary: y) simp_all

lemma join_strings_csv_line: "join_strings '','' cells = csv_line cells"
  by (cases cells) (simp_all add: join_strings_cons)

lemma join_strings_lines:
  "join_strings sep (y # ys) @ sep = concat (map (\<lambda>l. l @ sep) (y # ys))"
  by (induction ys arbitrary: y) simp_all

lemma js_join_header:
  "js_join str '','' (JStr ''ID'' # JStr ''Name'' # map JStr keys) = csv_line (''ID'' # ''Name'' # keys)"
  unfolding js_join_def join_strings_csv_line by (simp add: comp_def)

lemma render_row_own:
  assumes "map fst (snd (snd app)) = metric_names"
    and "\<exists>s. fst app = JStr s" "\<exists>s. fst (snd app) = JStr s"
  shows "render_row str metric_names app = csv_line (csv_cells str app)"
proof -
  have "distinct (map fst (snd (snd app)))"
    using assms(1) distinct_metric_names by simp
  from lookup_own_keys [OF this] assms(1)
  have "map (\<lambda>k. case map_of (snd (snd app)) k of None \<Rightarrow> JUndefined | Some n \<Rightarrow> JNum n)
          metric_names = map (\<lambda>kv. JNum (snd kv)) (snd (snd app))"
    by simp
  with assms(2,3) show ?thesis
    unfolding render_row_def js_join_def join_strings_csv_line
    by (auto simp: csv_cells_def comp_def)
qed

lemma render_rows:
  assumes "applicationData \<noteq> []"
    and "\<forall>e \<in> set applicationData. map fst (snd (snd e)) = metric_names"
    and "\<forall>e \<in> set applicationData. (\<exists>s. fst e = JStr s) \<and> (\<exists>s. fst (snd e) = JStr s)"
  shows "render str applicationData = Inr (csv_text str applicationData)"
proof -
  from assms obtain first rest where ad: "applicationData = first # rest"
    by (cases applicationData) auto
  with assms(2) have k: "map fst (snd (snd first)) = metric_names" by simp
  have r1: "render str (first # rest) =
      Inr (join_strings [CHR 0x0A]
             (csv_line (''ID'' # ''Name'' # metric_names)
              # map (render_row str metric_names) (first # rest))
           @ [CHR 0x0A])"
    by (simp add: render_def k js_join_header)
  have r2: "map (render_row str metric_names) (first # rest)
              = map (\<lambda>app. csv_line (csv_cells str app)) (first # rest)"
  proof (rule map_cong [OF refl])
    fix app
    assume "app \<in> set (first # rest)"
    with assms(2,3) ad have "map fst (snd (snd app)) = metric_names"
      and "\<exists>s. fst app = JStr s" and "\<exists>s. fst (snd app) = JStr s"
      by blast+
    then show "render_row str metric_names app = csv_line (csv_cells str app)"
      by (rule render_row_own)
  qed
  show ?thesis
    unfolding csv_text_def ad r1 r2 join_strings_lines by (simp add: k comp_def)
qed

lemma listApplications_stops:
  "listApplications srv tok = Inl out \<Longrightarrow> ending out = Exited 1 \<and> written out = None"
  by (auto simp: listApplications_def stop_def split: sum.splits if_splits)

lemma main_after_collect:
  assumes "listApplications (api env) customer = Inr (JArr apps)"
  shows "main env customer =
     (case collect (number_plus env) (api env) apps [] of
        None \<Rightarrow> None
      | Some (Inl out) \<Rightarrow> Some out
      | Some (Inr applicationData) \<Rightarrow>
          (case render (number_toString env) applicationData of
             Inl e \<Rightarrow> Some (stop (Uncaught e) [])
           | Inr outString \<Rightarrow>
               (case writeFileSync env (argv_outputFile env) outString of
                  Some e \<Rightarrow> Some (stop Completed [FailedToWriteOutputFile, CsvFileWritten])
                | None \<Rightarrow>
                    Some \<lparr> ending = Completed, console = [CsvFileWritten],
                           written = Some (argv_outputFile env, outString) \<rparr>)))"
  by (simp add: main_def assms)

lemma main_not_array:
  assumes "listApplications (api env) customer = Inr applications"
    and "\<not> (js_truthy applications \<and> js_isArray applications)"
  shows "main env customer = Some (stop (Exited 1) [UnexpectedApplicationsResponse])"
  using assms by (auto simp: main_def)

lemma main_endings:
  assumes "main env customer = Some out"
  shows "ending out = Completed \<or> (exit_code (ending out) = 1 \<and> written out = None)"
proof (cases "listApplications (api env) customer")
  case (Inl o1)
  with assms listApplications_stops [OF Inl] show ?thesis by (simp add: main_def)
next
  case (Inr applications)
  show ?thesis
  proof (cases "js_truthy applications \<and> js_isArray applications")
    case False
    with assms main_not_array [OF Inr] show ?thesis by (auto simp: stop_def)
  next
    case True
    then obtain apps where apps: "applications = JArr apps" by (cases applications) auto
    note m = main_after_collect [OF Inr [unfolded apps]]
    show ?thesis
    proof (cases "collect (number_plus env) (api env) apps []")
      case None
      with assms m show ?thesis by simp
    next
      case (Some c)
      show ?thesis
      proof (cases c)
        case (Inl o2)
        with assms m Some collect_stops [of "number_plus env" "api env" apps "[]" o2] show ?thesis by simp
      next
        case (Inr applicationData)
        with assms m Some show ?thesis
          by (auto simp: stop_def split: sum.splits option.splits)
      qed
    qed
  qed
qed

lemma script_endings:
  assumes "script env = Some out"
  shows "ending out = Completed \<or> (exit_code (ending out) = 1 \<and> written out = None)"
  using assms
  by (auto simp: script_def stop_def split: sum.splits if_splits prod.splits dest!: main_endings)

lemma script_missing_config:
  assumes "\<not> js_truthy (field (dotenv_parsed env) ''CUSTOMER_ID'') \<or>
           \<not> js_truthy (field (dotenv_parsed env) ''CUSTOMER_SECRET'') \<or>
           \<not> js_truthy (argv_outputFile env)"
  shows "\<exists>out. script env = Some out \<and> exit_code (ending out) = 1 \<and> written out = None"
proof (cases "dotenv_parsed env")
  case (JObj kvs)
  with assms show ?thesis by (auto simp: script_def stop_def)
next
  case (JArr xs)
  with assms show ?thesis by (auto simp: script_def stop_def)
qed (auto simp: script_def stop_def)

lemma script_runs_main:
  assumes "js_truthy (field (dotenv_parsed env) ''CUSTOMER_ID'')"
    and "js_truthy (field (dotenv_parsed env) ''CUSTOMER_SECRET'')"
    and "js_truthy (argv_outputFile env)"
  shows "script env =
           main env (CustomerToken (field (dotenv_parsed env) ''CUSTOMER_ID'')
                                   (field (dotenv_parsed env) ''CUSTOMER_SECRET''))"
proof (cases "dotenv_parsed env")
  case (JObj kvs)
  with assms show ?thesis by (simp add: script_def makeCustomerToken_def)
qed (use assms in simp_all)

lemma main_write_failure:
  assumes "listApplications (api env) customer = Inr (JArr apps)"
    and "collect (number_plus env) (api env) apps [] = Some (Inr applicationData)"
    and "render (number_toString env) applicationData = Inr outString"
    and "writeFileSync env (argv_outputFile env) outString = Some e"
  shows "main env customer = Some (stop Completed [FailedToWriteOutputFile, CsvFileWritten])"
  by (simp add: main_after_collect [OF assms(1)] assms(2,3,4))

lemma collect_append:
  "collect num_add srv (pre @ rest) acc =
     (case collect num_add srv pre acc of
        Some (Inr acc') \<Rightarrow> collect num_add srv rest acc'
      | other \<Rightarrow> other)"
proof (induction pre arbitrary: acc)
  case Nil
  then show ?case by simp
next
  case (Cons a pre)
  show ?case
  proof (cases "js_truthy a \<and> js_typeof a = ''object''")
    case False
    then show ?thesis by (simp add: collect_not_object)
  next
    case True
    then have obj: "js_truthy a" "js_typeof a = ''object''" by simp_all
    show ?thesis
      by (simp add: collect_cons [OF obj] Cons.IH split: option.splits sum.splits)
  qed
qed

lemma main_application_failure:
  assumes "listApplications (api env) customer = Inr (JArr (pre @ app # rest))"
    and "collect (number_plus env) (api env) pre [] = Some (Inr acc)"
    and "js_truthy app" "js_typeof app = ''object''" "\<not> denylisted app"
    and "generateApplicationAnalytics (number_plus env) (api env) app = Some (Inl e)"
  shows "main env customer = Some (stop (Exited 1) [FailedToGenerateAnalytics (field app ''id'')])"
proof -
  have "collect (number_plus env) (api env) (pre @ app # rest) [] =
          Some (Inl (stop (Exited 1) [FailedToGenerateAnalytics (field app ''id'')]))"
    by (simp add: collect_append assms(2) collect_cons [OF assms(3,4)] assms(5,6))
  then show ?thesis
    by (simp add: main_after_collect [OF assms(1)])
qed

lemma application_valid_object:
  "application_valid app = Inr True \<Longrightarrow> js_truthy app \<and> js_typeof app = ''object''"
  by (auto simp: application_valid_def js_and_def split: if_splits)

lemma generate_invalid:
  "application_valid app = Inr False \<Longrightarrow>
     generateApplicationAnalytics num_add srv app =
       Some (Inl (Err ''Application is missing required fields: name, id, and secret''))"
  by (simp add: generateApplicationAnalytics_def)

lemma first_rejection_finds:
  "Some (Inl e) \<in> set ps \<Longrightarrow> \<exists>e'. first_rejection ps = Some e'"
  by (induction ps rule: first_rejection.induct) auto

lemma promise_all4_rejects:
  assumes "a = Some (Inl e) \<or> b = Some (Inl e) \<or> c = Some (Inl e) \<or> d = Some (Inl e)"
  shows "\<exists>e'. promise_all4 a b c d = Some (Inl e')"
proof -
  from assms have "Some (Inl e) \<in> set [a, b, c, d]" by auto
  from first_rejection_finds [OF this] obtain e' where "first_rejection [a, b, c, d] = Some e'"
    by blast
  then show ?thesis by (simp add: promise_all4_def)
qed

lemma generate_fetch_failure:
  assumes "application_valid app = Inr True"
    and "map_option fst (getUsers srv (ServerToken (field app ''id'') (field app ''secret''))) = Some (Inl e) \<or>
         fst (getGroups srv (ServerToken (field app ''id'') (field app ''secret''))) = Inl e \<or>
         map_option fst (getThreads srv (ServerToken (field app ''id'') (field app ''secret''))) = Some (Inl e) \<or>
         map_option fst (getMessages srv (ServerToken (field app ''id'') (field app ''secret''))) = Some (Inl e)"
  shows "\<exists>e'. generateApplicationAnalytics num_add srv app = Some (Inl e')"
proof -
  from application_valid_object [OF assms(1)]
  have obj: "js_truthy app" "js_typeof app = ''object''" by simp_all
  let ?tok = "ServerToken (field app ''id'') (field app ''secret'')"
  from assms(2) have
    "\<exists>e'. promise_all4 (map_option fst (getUsers srv ?tok)) (Some (fst (getGroups srv ?tok)))
            (map_option fst (getThreads srv ?tok)) (map_option fst (getMessages srv ?tok))
          = Some (Inl e')"
    by (intro promise_all4_rejects [of _ e]) auto
  then show ?thesis
    by (auto simp: generateApplicationAnalytics_def assms(1) js_get_object [OF obj]
          makeServerToken_def)
qed

lemma generate_no_secret:
  assumes "application_valid app = Inr True" and "field app ''secret'' = JStr []"
  shows "generateApplicationAnalytics num_add srv app =
           Some (Inl (Err ''secretOrPrivateKey must have a value''))"
proof -
  from application_valid_object [OF assms(1)]
  have obj: "js_truthy app" "js_typeof app = ''object''" by simp_all
  show ?thesis
    by (simp add: generateApplicationAnalytics_def assms js_get_object [OF obj]
          makeServerToken_def)
qed

lemmas demo_defs = empty_page_def one_page_def demo_server_def demo_env_def sample_env_def
  demo_app_def denied_app_def ok_response_def

lemma demo_listApplications:
  "listApplications (demo_server applications) tok = Inr applications"
  by (simp add: listApplications_def autoRetry_def axios_get_def demo_defs)

lemma demo_valid: "application_valid demo_app = Inr True"
  by (simp add: application_valid_def js_and_def seq_def demo_app_def)

lemma other_valid: "application_valid other_app = Inr True"
  by (simp add: application_valid_def js_and_def seq_def other_app_def)

lemma digits_small:
  "digits 0 = ''0''" "digits (Suc 0) = ''1''" "digits 2 = ''2''" "digits 3 = ''3''"
  "digits 4 = ''4''" "digits 5 = ''5''" "digits 6 = ''6''" "digits 7 = ''7''"
  "digits 11 = ''11''"
  by (simp_all add: digits.simps [of 0] digits.simps [of "Suc 0"] digits.simps [of 2]
        digits.simps [of 3] digits.simps [of 4] digits.simps [of 5] digits.simps [of 6]
        digits.simps [of 7] digits.simps [of 11])

lemmas record_defs = status_is_def truthy_field_def number_of_def length_field_def
  mentions_of_def participant_ids_def set_add_def js_number_def

lemmas catalog_defs = catalog_server_def one_page_def ok_response_def

lemma catalog_listApplications:
  "listApplications catalog_server tok = Inr (JArr [demo_app, denied_app, other_app])"
  by (simp add: listApplications_def autoRetry_def axios_get_def catalog_defs)

lemma catalog_fetch_demo:
  "map_option fst (getUsers catalog_server (ServerToken (JStr ''app-1'') (JStr ''k1'')))
     = Some (Inr demo_users)"
  "fst (getGroups catalog_server (ServerToken (JStr ''app-1'') (JStr ''k1''))) = Inr demo_groups"
  "map_option fst (getThreads catalog_server (ServerToken (JStr ''app-1'') (JStr ''k1'')))
     = Some (Inr demo_threads)"
  "map_option fst (getMessages catalog_server (ServerToken (JStr ''app-1'') (JStr ''k1'')))
     = Some (Inr demo_messages)"
  unfolding getUsers_def getThreads_def getMessages_def
  by (subst fetch_pages.simps, simp add: fetch_defs catalog_defs,
      simp add: getGroups_def autoRetry_def axios_get_def catalog_defs,
      (subst fetch_pages.simps, simp add: fetch_defs catalog_defs)+)

lemma catalog_fetch_other:
  "map_option fst (getUsers catalog_server (ServerToken (JStr ''app-2'') (JStr ''k2'')))
     = Some (Inr other_users)"
  "fst (getGroups catalog_server (ServerToken (JStr ''app-2'') (JStr ''k2''))) = Inr []"
  "map_option fst (getThreads catalog_server (ServerToken (JStr ''app-2'') (JStr ''k2'')))
     = Some (Inr other_threads)"
  "map_option fst (getMessages catalog_server (ServerToken (JStr ''app-2'') (JStr ''k2'')))
     = Some (Inr other_messages)"
  unfolding getUsers_def getThreads_def getMessages_def
  by (subst fetch_pages.simps, simp add: fetch_defs catalog_defs,
      simp add: getGroups_def autoRetry_def axios_get_def catalog_defs,
      (subst fetch_pages.simps, simp add: fetch_defs catalog_defs)+)

lemma catalog_aggregate_demo:
  "aggregate sample_plus demo_users demo_groups demo_threads demo_messages =
     Inr (zip metric_names
            (map Finite [3, 2, 1, 1, 1, 0, 1, 1, 1, 5, 0, 0, 0, 1, 3, 1, 2, 0]))"
  by (simp add: aggregate_eq metric_names_def record_defs demo_users_def demo_groups_def
        demo_threads_def demo_messages_def)

lemma catalog_aggregate_other:
  "aggregate sample_plus other_users [] other_threads other_messages =
     Inr (zip metric_names
            (map Finite [1, 0, 1, 0, 0, 0, 0, 2, 0, 11, 2, 6, 1, 2, 2, 0, 0, 1]))"
  by (simp add: aggregate_eq metric_names_def record_defs other_users_def other_threads_def
        other_messages_def)

lemma catalog_generate_demo:
  "generateApplicationAnalytics sample_plus catalog_server demo_app =
     Some (Inr (zip metric_names
                  (map Finite [3, 2, 1, 1, 1, 0, 1, 1, 1, 5, 0, 0, 0, 1, 3, 1, 2, 0])))"
  unfolding generateApplicationAnalytics_def demo_valid
  by (simp add: demo_app_def makeServerToken_def catalog_fetch_demo promise_all4_def
        catalog_aggregate_demo)

lemma catalog_generate_other:
  "generateApplicationAnalytics sample_plus catalog_server other_app =
     Some (Inr (zip metric_names
                  (map Finite [1, 0, 1, 0, 0, 0, 0, 2, 0, 11, 2, 6, 1, 2, 2, 0, 0, 1])))"
  unfolding generateApplicationAnalytics_def other_valid
  by (simp add: other_app_def makeServerToken_def catalog_fetch_other promise_all4_def
        catalog_aggregate_other)

lemma sample_apps:
  "js_truthy demo_app" "js_typeof demo_app = ''object''" "\<not> denylisted demo_app"
  "field demo_app ''id'' = JStr ''app-1''" "field demo_app ''name'' = JStr ''Demo''"
  "js_truthy denied_app" "js_typeof denied_app = ''object''" "denylisted denied_app"
  "js_truthy other_app" "js_typeof other_app = ''object''" "\<not> denylisted other_app"
  "field other_app ''id'' = JStr ''app-2''" "field other_app ''name'' = JStr ''Other''"
  by (simp_all add: demo_app_def denied_app_def other_app_def denylisted_def)

lemma catalog_collect:
  "collect sample_plus catalog_server [demo_app, denied_app, other_app] [] =
     Some (Inr [(JStr ''app-1'', JStr ''Demo'',
                 zip metric_names
                   (map Finite [3, 2, 1, 1, 1, 0, 1, 1, 1, 5, 0, 0, 0, 1, 3, 1, 2, 0])),
                (JStr ''app-2'', JStr ''Other'',
                 zip metric_names
                   (map Finite [1, 0, 1, 0, 0, 0, 0, 2, 0, 11, 2, 6, 1, 2, 2, 0, 0, 1]))])"
  by (simp add: collect_cons sample_apps catalog_generate_demo catalog_generate_other)

lemma catalog_csv:
  "csv_text sample_toString
     [(JStr ''app-1'', JStr ''Demo'',
       zip metric_names (map Finite [3, 2, 1, 1, 1, 0, 1, 1, 1, 5, 0, 0, 0, 1, 3, 1, 2, 0])),
      (JStr ''app-2'', JStr ''Other'',
       zip metric_names (map Finite [1, 0, 1, 0, 0, 0, 0, 2, 0, 11, 2, 6, 1, 2, 2, 0, 0, 1]))] =
     ''ID,Name,Total User Count,Active User Count,Deleted User Count,Total Group Count,Active Group Count,Deleted Group Count,Slack Connected Group Count,Total Thread Count,Total Resolved Thread Count,Total Message Count,Total Deleted Message Count,Total User Messages Count,Total Action Messages Count,Total Thread Participants Count,Total Messages,Total Mention Messages Count,Total Reactions Count,Total Attachments Count''
     @ [CHR 0x0A] @ ''app-1,Demo,3,2,1,1,1,0,1,1,1,5,0,0,0,1,3,1,2,0''
     @ [CHR 0x0A] @ ''app-2,Other,1,0,1,0,0,0,0,2,0,11,2,6,1,2,2,0,0,1'' @ [CHR 0x0A]"
  by (simp add: csv_text_def csv_cells_def metric_names_def digits_small)

lemma last_lines:
  "ls \<noteq> [] \<Longrightarrow> concat (map (\<lambda>l. g l @ [c]) ls) \<noteq> [] \<and> last (concat (map (\<lambda>l. g l @ [c]) ls)) = c"
  by (induction ls) auto

lemma last_csv_text: "csv_text str d \<noteq> [] \<and> last (csv_text str d) = CHR 0x0A"
  unfolding csv_text_def by (rule last_lines) simp

lemma render_collected:
  assumes "collect num_add srv apps [] = Some (Inr applicationData)"
    and "applicationData \<noteq> []"
  shows "render str applicationData = Inr (csv_text str applicationData)"
proof -
  from collect_entries [OF assms(1)]
  have keys: "\<forall>e \<in> set applicationData. map fst (snd (snd e)) = metric_names"
    and strs: "\<forall>e \<in> set applicationData. (\<exists>s. fst e = JStr s) \<and> (\<exists>s. fst (snd e) = JStr s)"
    by auto
  show ?thesis
    by (rule render_rows [OF assms(2) keys strs])
qed

lemma main_writes_csv:
  assumes "listApplications (api env) customer = Inr (JArr apps)"
    and "collect (number_plus env) (api env) apps [] = Some (Inr applicationData)"
    and "applicationData \<noteq> []"
    and "writeFileSync env (argv_outputFile env)
           (csv_text (number_toString env) applicationData) = None"
  shows "render (number_toString env) applicationData
           = Inr (csv_text (number_toString env) applicationData)"
    and "main env customer =
           Some \<lparr> ending = Completed, console = [CsvFileWritten],
                  written = Some (argv_outputFile env,
                                  csv_text (number_toString env) applicationData) \<rparr>"
proof -
  from collect_entries [OF assms(2)]
  have keys: "\<forall>e \<in> set applicationData. map fst (snd (snd e)) = metric_names"
    and strs: "\<forall>e \<in> set applicationData. (\<exists>s. fst e = JStr s) \<and> (\<exists>s. fst (snd e) = JStr s)"
    by auto
  show r: "render (number_toString env) applicationData
             = Inr (csv_text (number_toString env) applicationData)"
    by (rule render_rows [OF assms(3) keys strs])
  show "main env customer =
           Some \<lparr> ending = Completed, console = [CsvFileWritten],
                  written = Some (argv_outputFile env,
                                  csv_text (number_toString env) applicationData) \<rparr>"
    by (simp add: main_after_collect [OF assms(1)] assms(2,4) r)
qed

text \<open>
  C8. For every run that produces output (the configuration is complete, the loop of
  \<open>main\<close> has gathered at least one entry and the write succeeds), the file holds the
  table of \<open>csv_text\<close>: the header \<open>ID,Name\<close> followed by the keys of the first processed
  application's metrics object in insertion order, then one line per entry with the id,
  the name and the entry's own values in its own key order, every line followed by a
  newline. Every entry has the keys of the first in the same order, so every line follows
  the order of the header; ids and names are strings; the entries are the applications
  that are not denylisted, in the order of the list; the text ends with a newline.
\<close>

theorem csv_layout:
  "js_truthy (field (dotenv_parsed env) ''CUSTOMER_ID'') \<and>
   js_truthy (field (dotenv_parsed env) ''CUSTOMER_SECRET'') \<and>
   js_truthy (argv_outputFile env) \<and>
   listApplications (api env)
       (CustomerToken (field (dotenv_parsed env) ''CUSTOMER_ID'')
                      (field (dotenv_parsed env) ''CUSTOMER_SECRET'')) = Inr (JArr apps) \<and>
   collect (number_plus env) (api env) apps [] = Some (Inr applicationData) \<and>
   applicationData \<noteq> [] \<longrightarrow>
     render (number_toString env) applicationData
       = Inr (csv_text (number_toString env) applicationData) \<and>
     (writeFileSync env (argv_outputFile env)
        (csv_text (number_toString env) applicationData) = None \<longrightarrow>
        script env =
          Some \<lparr> ending = Completed, console = [CsvFileWritten],
                 written = Some (argv_outputFile env,
                                 csv_text (number_toString env) applicationData) \<rparr>) \<and>
     (\<forall>app \<in> set applicationData.
        map fst (snd (snd app)) = map fst (snd (snd (hd applicationData))) \<and>
        fst app = JStr (string_of (fst app)) \<and>
        fst (snd app) = JStr (string_of (fst (snd app)))) \<and>
     map fst applicationData = map (\<lambda>a. field a ''id'') (filter (\<lambda>a. \<not> denylisted a) apps) \<and>
     map (\<lambda>e. fst (snd e)) applicationData
       = map (\<lambda>a. field a ''name'') (filter (\<lambda>a. \<not> denylisted a) apps) \<and>
     csv_text (number_toString env) applicationData \<noteq> [] \<and>
     last (csv_text (number_toString env) applicationData) = CHR 0x0A"
proof (intro impI, elim conjE)
  let ?customer = "CustomerToken (field (dotenv_parsed env) ''CUSTOMER_ID'')
                                 (field (dotenv_parsed env) ''CUSTOMER_SECRET'')"
  let ?text = "csv_text (number_toString env) applicationData"
  assume cfg: "js_truthy (field (dotenv_parsed env) ''CUSTOMER_ID'')"
    "js_truthy (field (dotenv_parsed env) ''CUSTOMER_SECRET'')"
    "js_truthy (argv_outputFile env)"
    and l: "listApplications (api env) ?customer = Inr (JArr apps)"
    and c: "collect (number_plus env) (api env) apps [] = Some (Inr applicationData)"
    and ne: "applicationData \<noteq> []"
  from collect_entries [OF c]
  have keys: "\<forall>e \<in> set applicationData. map fst (snd (snd e)) = metric_names"
    and strs: "\<forall>e \<in> set applicationData. (\<exists>s. fst e = JStr s) \<and> (\<exists>s. fst (snd e) = JStr s)"
    and ids: "map fst applicationData =
                map (\<lambda>a. field a ''id'') (filter (\<lambda>a. \<not> denylisted a) apps)"
    and names: "map (\<lambda>e. fst (snd e)) applicationData =
                map (\<lambda>a. field a ''name'') (filter (\<lambda>a. \<not> denylisted a) apps)"
    by auto
  from ne keys have hd_keys: "map fst (snd (snd (hd applicationData))) = metric_names"
    by (cases applicationData) auto
  have r: "render (number_toString env) applicationData = Inr ?text"
    by (rule render_rows [OF ne keys strs])
  have w: "script env =
          Some \<lparr> ending = Completed, console = [CsvFileWritten],
                 written = Some (argv_outputFile env, ?text) \<rparr>"
    if "writeFileSync env (argv_outputFile env) ?text = None"
    using main_writes_csv(2) [OF l c ne that] by (simp add: script_runs_main [OF cfg])
  have cells: "\<forall>app \<in> set applicationData.
        map fst (snd (snd app)) = map fst (snd (snd (hd applicationData))) \<and>
        fst app = JStr (string_of (fst app)) \<and>
        fst (snd app) = JStr (string_of (fst (snd app)))"
    using keys strs hd_keys by fastforce
  from r w cells ids names last_csv_text [of "number_toString env" applicationData]
  show "render (number_toString env) applicationData = Inr ?text \<and>
     (writeFileSync env (argv_outputFile env) ?text = None \<longrightarrow>
        script env =
          Some \<lparr> ending = Completed, console = [CsvFileWritten],
                 written = Some (argv_outputFile env, ?text) \<rparr>) \<and>
     (\<forall>app \<in> set applicationData.
        map fst (snd (snd app)) = map fst (snd (snd (hd applicationData))) \<and>
        fst app = JStr (string_of (fst app)) \<and>
        fst (snd app) = JStr (string_of (fst (snd app)))) \<and>
     map fst applicationData = map (\<lambda>a. field a ''id'') (filter (\<lambda>a. \<not> denylisted a) apps) \<and>
     map (\<lambda>e. fst (snd e)) applicationData
       = map (\<lambda>a. field a ''name'') (filter (\<lambda>a. \<not> denylisted a) apps) \<and>
     ?text \<noteq> [] \<and> last ?text = CHR 0x0A"
    by blast
qed

theorem csv_layout_witness:
  "script (sample_env catalog_server (JStr ''data.csv'') (\<lambda>path content. None)) =
     Some \<lparr> ending = Completed, console = [CsvFileWritten],
            written = Some (JStr ''data.csv'',
     ''ID,Name,Total User Count,Active User Count,Deleted User Count,Total Group Count,Active Group Count,Deleted Group Count,Slack Connected Group Count,Total Thread Count,Total Resolved Thread Count,Total Message Count,Total Deleted Message Count,Total User Messages Count,Total Action Messages Count,Total Thread Participants Count,Total Messages,Total Mention Messages Count,Total Reactions Count,Total Attachments Count''
     @ [CHR 0x0A] @ ''app-1,Demo,3,2,1,1,1,0,1,1,1,5,0,0,0,1,3,1,2,0''
     @ [CHR 0x0A] @ ''app-2,Other,1,0,1,0,0,0,0,2,0,11,2,6,1,2,2,0,0,1'' @ [CHR 0x0A]) \<rparr>"
proof -
  let ?env = "sample_env catalog_server (JStr ''data.csv'') (\<lambda>path content. None)"
  let ?data = "[(JStr ''app-1'', JStr ''Demo'',
                 zip metric_names
                   (map Finite [3, 2, 1, 1, 1, 0, 1, 1, 1, 5, 0, 0, 0, 1, 3, 1, 2, 0])),
                (JStr ''app-2'', JStr ''Other'',
                 zip metric_names
                   (map Finite [1, 0, 1, 0, 0, 0, 0, 2, 0, 11, 2, 6, 1, 2, 2, 0, 0, 1]))]"
  have c1: "js_truthy (field (dotenv_parsed ?env) ''CUSTOMER_ID'')"
    and c2: "js_truthy (field (dotenv_parsed ?env) ''CUSTOMER_SECRET'')"
    and c3: "js_truthy (argv_outputFile ?env)"
    by (simp_all add: sample_env_def)
  have l: "listApplications (api ?env)
             (CustomerToken (field (dotenv_parsed ?env) ''CUSTOMER_ID'')
                            (field (dotenv_parsed ?env) ''CUSTOMER_SECRET''))
           = Inr (JArr [demo_app, denied_app, other_app])"
    by (simp add: sample_env_def catalog_listApplications)
  have c: "collect (number_plus ?env) (api ?env) [demo_app, denied_app, other_app] []
             = Some (Inr ?data)"
    by (simp add: sample_env_def catalog_collect)
  have ne: "?data \<noteq> []" by simp
  have w: "writeFileSync ?env (argv_outputFile ?env) (csv_text (number_toString ?env) ?data) = None"
    by (simp add: sample_env_def)
  have p: "argv_outputFile ?env = JStr ''data.csv''" "number_toString ?env = sample_toString"
    by (simp_all add: sample_env_def)
  note t = csv_layout [of ?env "[demo_app, denied_app, other_app]" ?data, THEN mp,
      OF conjI [OF c1 conjI [OF c2 conjI [OF c3 conjI [OF l conjI [OF c ne]]]]]]
  from t [THEN conjunct2, THEN conjunct1, THEN mp, OF w] show ?thesis
    by (simp only: p catalog_csv)
qed

text \<open>
  C10. When the fetched application list is an array that yields no entry, because it
  is empty or because every application in it is denylisted, \<open>main\<close> ends with an
  uncaught \<open>TypeError\<close> (the read of \<open>applicationData[0][2]\<close>), having printed none of its
  messages and written no file.
\<close>

theorem empty_result_crashes:
  "listApplications (api env) customer = Inr (JArr apps) \<and>
   (\<forall>a \<in> set apps. js_truthy a \<and> js_typeof a = ''object'' \<and> denylisted a) \<longrightarrow>
     main env customer = Some \<lparr> ending = Uncaught TypeError, console = [], written = None \<rparr>"
proof (intro impI, elim conjE)
  assume l: "listApplications (api env) customer = Inr (JArr apps)"
    and d: "\<forall>a \<in> set apps. js_truthy a \<and> js_typeof a = ''object'' \<and> denylisted a"
  from collect_denylisted [OF d]
  have "collect (number_plus env) (api env) apps [] = Some (Inr [])" .
  then show "main env customer = Some \<lparr> ending = Uncaught TypeError, console = [], written = None \<rparr>"
    by (simp add: main_after_collect [OF l] render_def stop_def)
qed

theorem empty_result_crashes_witness:
  "main (demo_env (JArr []) (JStr ''data.csv'') (\<lambda>path content. None))
        (CustomerToken (JStr ''cust-1'') (JStr ''s3cret'')) =
     Some \<lparr> ending = Uncaught TypeError, console = [], written = None \<rparr> \<and>
   main (demo_env (JArr [denied_app]) (JStr ''data.csv'') (\<lambda>path content. None))
        (CustomerToken (JStr ''cust-1'') (JStr ''s3cret'')) =
     Some \<lparr> ending = Uncaught TypeError, console = [], written = None \<rparr>"
proof -
  let ?cust = "CustomerToken (JStr ''cust-1'') (JStr ''s3cret'')"
  let ?e0 = "demo_env (JArr []) (JStr ''data.csv'') (\<lambda>path content. None)"
  let ?e1 = "demo_env (JArr [denied_app]) (JStr ''data.csv'') (\<lambda>path content. None)"
  have l0: "listApplications (api ?e0) ?cust = Inr (JArr [])"
    by (simp add: demo_env_def sample_env_def demo_listApplications)
  have l1: "listApplications (api ?e1) ?cust = Inr (JArr [denied_app])"
    by (simp add: demo_env_def sample_env_def demo_listApplications)
  have d0: "\<forall>a \<in> set ([] :: jsval list). js_truthy a \<and> js_typeof a = ''object'' \<and> denylisted a"
    by simp
  have d1: "\<forall>a \<in> set [denied_app]. js_truthy a \<and> js_typeof a = ''object'' \<and> denylisted a"
    by (simp add: denied_app_def denylisted_def)
  from empty_result_crashes [of ?e0 ?cust "[]", THEN mp, OF conjI [OF l0 d0]]
    empty_result_crashes [of ?e1 ?cust "[denied_app]", THEN mp, OF conjI [OF l1 d1]]
  show ?thesis by (intro conjI)
qed

lemma main_malformed_application:
  assumes "listApplications (api env) customer = Inr (JArr (pre @ app # rest))"
    and "collect (number_plus env) (api env) pre [] = Some (Inr acc)"
    and "\<not> (js_truthy app \<and> js_typeof app = ''object'')"
  shows "main env customer = Some (stop (Exited 1) [MalformedApplicationObject])"
proof -
  have "collect (number_plus env) (api env) (pre @ app # rest) [] =
          Some (Inl (stop (Exited 1) [MalformedApplicationObject]))"
    by (simp add: collect_append assms(2) collect_not_object [OF assms(3)])
  then show ?thesis
    by (simp add: main_after_collect [OF assms(1)])
qed

lemmas maintenance_defs = maintenance_server_def ok_response_def

lemma maintenance_listApplications:
  "listApplications maintenance_server tok = Inr (JArr [demo_app])"
  by (simp add: listApplications_def autoRetry_def axios_get_def maintenance_defs)

lemma maintenance_fetch:
  "map_option fst (getUsers maintenance_server tok) = Some (Inr [])"
  "fst (getGroups maintenance_server tok) = Inr []"
  "map_option fst (getThreads maintenance_server tok) = Some (Inr [])"
  "map_option fst (getMessages maintenance_server tok) = Some (Inr [])"
  unfolding getUsers_def getThreads_def getMessages_def
  by (subst fetch_pages.simps, simp add: fetch_defs maintenance_defs,
      simp add: getGroups_def autoRetry_def axios_get_def maintenance_defs,
      (subst fetch_pages.simps, simp add: fetch_defs maintenance_defs)+)

lemma aggregate_nothing:
  "aggregate sample_plus [] [] [] [] =
     Inr (zip metric_names
            (map Finite [0, 0, 0, 0, 0, 0, 0, 0, 0, 0, 0, 0, 0, 0, 0, 0, 0, 0]))"
  by (simp add: aggregate_eq metric_names_def js_number_def)

lemma maintenance_collect:
  "collect sample_plus maintenance_server [demo_app] [] =
     Some (Inr [(JStr ''app-1'', JStr ''Demo'',
                 zip metric_names
                   (map Finite [0, 0, 0, 0, 0, 0, 0, 0, 0, 0, 0, 0, 0, 0, 0, 0, 0, 0]))])"
proof -
  have "generateApplicationAnalytics sample_plus maintenance_server demo_app =
     Some (Inr (zip metric_names
                  (map Finite [0, 0, 0, 0, 0, 0, 0, 0, 0, 0, 0, 0, 0, 0, 0, 0, 0, 0])))"
    unfolding generateApplicationAnalytics_def demo_valid
    by (simp add: demo_app_def makeServerToken_def maintenance_fetch promise_all4_def
          aggregate_nothing)
  then show ?thesis
    by (simp add: collect_cons sample_apps)
qed

lemma maintenance_csv:
  "csv_text sample_toString
     [(JStr ''app-1'', JStr ''Demo'',
       zip metric_names (map Finite [0, 0, 0, 0, 0, 0, 0, 0, 0, 0, 0, 0, 0, 0, 0, 0, 0, 0]))] =
     ''ID,Name,Total User Count,Active User Count,Deleted User Count,Total Group Count,Active Group Count,Deleted Group Count,Slack Connected Group Count,Total Thread Count,Total Resolved Thread Count,Total Message Count,Total Deleted Message Count,Total User Messages Count,Total Action Messages Count,Total Thread Participants Count,Total Messages,Total Mention Messages Count,Total Reactions Count,Total Attachments Count''
     @ [CHR 0x0A] @ ''app-1,Demo,0,0,0,0,0,0,0,0,0,0,0,0,0,0,0,0,0,0'' @ [CHR 0x0A]"
  by (simp add: csv_text_def csv_cells_def metric_names_def digits_small)

text \<open>
  C9 asks that a malformed resource response ends the run with exit code 1. On the code
  a response with status 200 whose body is not an object does not: the three paginated
  fetches let it pass (the missing \<open>else\<close> of C1) and return no items. Here the users,
  threads and messages endpoints answer every request with an HTML page; the script
  completes, prints the success line, writes a file whose only data line holds zeros,
  and the exit code is 0.
\<close>

theorem html_pages_end_with_exit_code_0:
  "script (sample_env maintenance_server (JStr ''data.csv'') (\<lambda>path content. None)) =
     Some \<lparr> ending = Completed, console = [CsvFileWritten],
            written = Some (JStr ''data.csv'',
     ''ID,Name,Total User Count,Active User Count,Deleted User Count,Total Group Count,Active Group Count,Deleted Group Count,Slack Connected Group Count,Total Thread Count,Total Resolved Thread Count,Total Message Count,Total Deleted Message Count,Total User Messages Count,Total Action Messages Count,Total Thread Participants Count,Total Messages,Total Mention Messages Count,Total Reactions Count,Total Attachments Count''
     @ [CHR 0x0A] @ ''app-1,Demo,0,0,0,0,0,0,0,0,0,0,0,0,0,0,0,0,0,0'' @ [CHR 0x0A]) \<rparr> \<and>
   exit_code Completed = 0"
proof -
  let ?env = "sample_env maintenance_server (JStr ''data.csv'') (\<lambda>path content. None)"
  let ?customer = "CustomerToken (field (dotenv_parsed ?env) ''CUSTOMER_ID'')
                                 (field (dotenv_parsed ?env) ''CUSTOMER_SECRET'')"
  let ?data = "[(JStr ''app-1'', JStr ''Demo'',
                 zip metric_names
                   (map Finite [0, 0, 0, 0, 0, 0, 0, 0, 0, 0, 0, 0, 0, 0, 0, 0, 0, 0]))]"
  have cfg: "js_truthy (field (dotenv_parsed ?env) ''CUSTOMER_ID'')"
    "js_truthy (field (dotenv_parsed ?env) ''CUSTOMER_SECRET'')"
    "js_truthy (argv_outputFile ?env)"
    by (simp_all add: sample_env_def)
  have l: "listApplications (api ?env) ?customer = Inr (JArr [demo_app])"
    by (simp add: sample_env_def maintenance_listApplications)
  have c: "collect (number_plus ?env) (api ?env) [demo_app] [] = Some (Inr ?data)"
    by (simp add: sample_env_def maintenance_collect)
  have ne: "?data \<noteq> []" by simp
  have w: "writeFileSync ?env (argv_outputFile ?env) (csv_text (number_toString ?env) ?data) = None"
    by (simp add: sample_env_def)
  have p: "argv_outputFile ?env = JStr ''data.csv''" "number_toString ?env = sample_toString"
    by (simp_all add: sample_env_def)
  have "script ?env = main ?env ?customer"
    by (rule script_runs_main [OF cfg])
  also note main_writes_csv(2) [OF l c ne w]
  finally show ?thesis
    by (simp only: p maintenance_csv exit_code.simps simp_thms)
qed

text \<open>
  The conditions of C9 that the code does treat as fatal, and the failed write, on
  sample runs: no output file, an application list that is not an array, an entry that
  is not an object, an application record without the required fields, an application
  whose secret is the empty string, a collection whose response is an object without the
  item array; and a write that throws.
\<close>

lemma sample_script:
  "js_truthy outputFile \<Longrightarrow>
     script (sample_env srv outputFile fs) =
       main (sample_env srv outputFile fs) (CustomerToken (JStr ''cust-1'') (JStr ''s3cret''))"
  by (simp add: script_def sample_env_def makeCustomerToken_def)

lemma sample_api:
  "api (sample_env srv outputFile fs) = srv"
  "number_plus (sample_env srv outputFile fs) = sample_plus"
  "number_toString (sample_env srv outputFile fs) = sample_toString"
  "argv_outputFile (sample_env srv outputFile fs) = outputFile"
  "writeFileSync (sample_env srv outputFile fs) = fs"
  by (simp_all add: sample_env_def)

lemma run_without_output_file:
  "script (demo_env (JArr [demo_app]) JUndefined (\<lambda>path content. None)) =
     Some (stop (Exited 1) [MissingOutputFile])"
  by (simp add: script_def demo_env_def sample_env_def)

lemma run_with_bad_list:
  "script (demo_env (JStr ''not a list'') (JStr ''data.csv'') (\<lambda>path content. None)) =
     Some (stop (Exited 1) [UnexpectedApplicationsResponse])"
  unfolding demo_env_def
  by (simp add: sample_script main_def sample_api demo_listApplications)

lemma run_with_bad_entry:
  "script (demo_env (JArr [JNum (Finite 7)]) (JStr ''data.csv'') (\<lambda>path content. None)) =
     Some (stop (Exited 1) [MalformedApplicationObject])"
  unfolding demo_env_def
  by (simp add: sample_script main_def sample_api demo_listApplications collect_not_object)

lemma run_with_invalid_application:
  "script (demo_env (JArr [bad_app]) (JStr ''data.csv'') (\<lambda>path content. None)) =
     Some (stop (Exited 1) [FailedToGenerateAnalytics (JNum (Finite 5))])"
proof -
  have v: "application_valid bad_app = Inr False"
    by (simp add: application_valid_def bad_app_def js_and_def seq_def)
  have b: "js_truthy bad_app" "js_typeof bad_app = ''object''" "\<not> denylisted bad_app"
    "field bad_app ''id'' = JNum (Finite 5)"
    by (simp_all add: bad_app_def denylisted_def)
  show ?thesis
    unfolding demo_env_def
    by (simp add: sample_script main_def sample_api demo_listApplications collect_cons b
          generate_invalid [OF v])
qed

lemma run_with_empty_secret:
  "script (demo_env (JArr [no_secret_app]) (JStr ''data.csv'') (\<lambda>path content. None)) =
     Some (stop (Exited 1) [FailedToGenerateAnalytics (JStr ''app-3'')])"
proof -
  have v: "application_valid no_secret_app = Inr True"
    by (simp add: application_valid_def no_secret_app_def js_and_def seq_def)
  have b: "js_truthy no_secret_app" "js_typeof no_secret_app = ''object''"
    "\<not> denylisted no_secret_app" "field no_secret_app ''id'' = JStr ''app-3''"
    "field no_secret_app ''secret'' = JStr []"
    by (simp_all add: no_secret_app_def denylisted_def)
  show ?thesis
    unfolding demo_env_def
    by (simp add: sample_script main_def sample_api demo_listApplications collect_cons b
          generate_no_secret [OF v b(5)])
qed

lemma run_with_malformed_collection:
  "script (sample_env broken_server (JStr ''data.csv'') (\<lambda>path content. None)) =
     Some (stop (Exited 1) [FailedToGenerateAnalytics (JStr ''app-1'')])"
proof -
  have l: "listApplications broken_server tok = Inr (JArr [demo_app])" for tok
    by (simp add: listApplications_def autoRetry_def axios_get_def broken_server_def
          ok_response_def)
  have u: "map_option fst (getUsers broken_server
              (ServerToken (field demo_app ''id'') (field demo_app ''secret'')))
            = Some (Inl (Err ''Request for users was malformed -- no users''))"
    unfolding getUsers_def
    by (subst fetch_pages.simps) (simp add: fetch_defs broken_server_def ok_response_def)
  from generate_fetch_failure [OF demo_valid disjI1 [OF u]]
  obtain e where "generateApplicationAnalytics sample_plus broken_server demo_app = Some (Inl e)"
    by blast
  then show ?thesis
    by (simp add: sample_script main_def sample_api l collect_cons sample_apps)
qed

lemma run_with_failing_write:
  "script (sample_env catalog_server (JStr ''data.csv'') (\<lambda>path content. Some (Err ''EACCES''))) =
     Some (stop Completed [FailedToWriteOutputFile, CsvFileWritten]) \<and>
   exit_code Completed = 0"
proof -
  let ?env = "sample_env catalog_server (JStr ''data.csv'') (\<lambda>path content. Some (Err ''EACCES''))"
  let ?cust = "CustomerToken (JStr ''cust-1'') (JStr ''s3cret'')"
  have l: "listApplications (api ?env) ?cust = Inr (JArr [demo_app, denied_app, other_app])"
    by (simp add: sample_api catalog_listApplications)
  obtain d where c: "collect (number_plus ?env) (api ?env) [demo_app, denied_app, other_app] []
                       = Some (Inr d)" and ne: "d \<noteq> []"
    by (simp add: sample_api catalog_collect)
  have w: "writeFileSync ?env (argv_outputFile ?env) (csv_text (number_toString ?env) d)
             = Some (Err ''EACCES'')"
    by (simp add: sample_api)
  from main_write_failure [OF l c render_collected [OF c ne] w] show ?thesis
    by (simp add: sample_script)
qed

end
